theory Spec2Isabelle
  imports Complex_Main "HOL-Library.Stream"
begin

section \<open>Shared conventions\<close>

text \<open>
  The repository holds two browser games that share \<^verbatim>\<open>game-config.js\<close>:
  a Flappy-Bird style dodger (\<^verbatim>\<open>class Game\<close>, \<^verbatim>\<open>class Pipe\<close>) and a
  Snake style collector (\<^verbatim>\<open>class Game\<close>, \<^verbatim>\<open>class Character\<close>,
  \<^verbatim>\<open>class Item\<close>).

  \<^item> JavaScript numbers that hold pixel positions, speeds and times are modelled as
    \<open>real\<close>; grid coordinates and scores only ever hold integers and are \<open>int\<close>.
  \<^item> A record field is a global constant in HOL, so every field carries the name of
    its class as a prefix: \<open>cell_x\<close> is the field \<^verbatim>\<open>x\<close> of a grid cell,
    \<open>c_score\<close> is \<^verbatim>\<open>this.score\<close> of the collector's Game, \<open>d_score\<close>
    the one of the dodger's Game.
  \<^item> \<^verbatim>\<open>Math.random()\<close> is the head of a stream of reals carried in the state;
    every call consumes one element.
  \<^item> \<^verbatim>\<open>localStorage\<close> is the list of the \<^verbatim>\<open>setItem\<close> calls made so far,
    most recent first; the decimal string that is stored is modelled by the integer
    it denotes.
  \<^item> Drawing is not modelled: \<^verbatim>\<open>render\<close> and \<^verbatim>\<open>draw\<close> read the state and
    write pixels only.
\<close>

type_synonym storage = "(string \<times> int) list"

definition getItem :: "storage \<Rightarrow> string \<Rightarrow> int option" where
  "getItem st key = map_of st key"

definition setItem :: "storage \<Rightarrow> string \<Rightarrow> int \<Rightarrow> storage" where
  "setItem st key v = (key, v) # st"

subsection \<open>\<^verbatim>\<open>game-config.js\<close>\<close>

record assets =
  as_character :: string
  as_item :: string
  as_background :: string
  as_topic :: string

text \<open>\<^verbatim>\<open>urlParams.get('topic') || 'default'\<close>: a missing parameter is \<^verbatim>\<open>null\<close>, and
  the empty string is falsy as well.\<close>

definition getTopicFromUrl :: "string option \<Rightarrow> string" where
  "getTopicFromUrl param =
     (case param of None \<Rightarrow> ''default'' | Some t \<Rightarrow> if t = [] then ''default'' else t)"

definition baseUrl :: string where
  "baseUrl = ''https://raw.githubusercontent.com/nivave/ecn-ai-hackathon-2025/main/game-assets''"

definition configureGameAssets :: "string option \<Rightarrow> assets" where
  "configureGameAssets param =
     (let topic = getTopicFromUrl param in
      \<lparr>as_character = baseUrl @ ''/'' @ topic @ ''/character.png'',
       as_item = baseUrl @ ''/'' @ topic @ ''/item.png'',
       as_background = baseUrl @ ''/'' @ topic @ ''/background.png'',
       as_topic = topic\<rparr>)"

text \<open>
  An image is either the one loaded from a URL or the 1x1 transparent placeholder.
  Whether a URL loads is a fact of the network, a parameter \<open>net\<close> of every loader.
  A promise is the value it settles to: \<open>Inr\<close> when resolved, \<open>Inl\<close> when
  rejected.
\<close>

datatype image = Image string | Placeholder

type_synonym network = "string \<Rightarrow> bool"

text \<open>\<^verbatim>\<open>Promise.all\<close>: resolved with all the values when every promise resolves,
  rejected otherwise. The source rejects with the rejection that settles first, the
  model with the first one in the list; both games only log it.\<close>

fun promise_all :: "('e + 'a) list \<Rightarrow> 'e + 'a list" where
  "promise_all [] = Inr []"
| "promise_all (Inl e # ps) = Inl e"
| "promise_all (Inr v # ps) =
     (case promise_all ps of Inl e \<Rightarrow> Inl e | Inr vs \<Rightarrow> Inr (v # vs))"

text \<open>\<^verbatim>\<open>loadImageWithFallback\<close> of \<^verbatim>\<open>game-config.js\<close>; it has no \<^verbatim>\<open>reject\<close>.
  The second component is what it writes to the console.\<close>

definition loadImageWithFallback ::
  "network \<Rightarrow> string \<Rightarrow> string \<Rightarrow> image \<times> string list" where
  "loadImageWithFallback net src fallbackSrc =
     (if net src then (Image src, [])
      else if fallbackSrc \<noteq> [] then
        (if net fallbackSrc
         then (Image fallbackSrc, [''Failed to load image: '' @ src @ '', trying fallback''])
         else (Placeholder,
               [''Failed to load image: '' @ src @ '', trying fallback'',
                ''Failed to load fallback image: '' @ fallbackSrc]))
      else (Placeholder, [''Failed to load image: '' @ src @ '', trying fallback'']))"


section \<open>The collector game\<close>

subsection \<open>Data\<close>

record cell =
  cell_x :: int
  cell_y :: int

record gridSize =
  grid_w :: int
  grid_h :: int

text \<open>\<^verbatim>\<open>class Character\<close>; \<open>lastTailPosition\<close> is \<^verbatim>\<open>_lastTailPosition\<close>,
  \<open>None\<close> for \<^verbatim>\<open>null\<close>.\<close>

record character =
  ch_gridSize :: gridSize
  segments :: "cell list"
  direction :: cell
  nextDirection :: cell
  lastTailPosition :: "cell option"

text \<open>\<^verbatim>\<open>new Character(config, gridSize, cellSize)\<close>; \<^verbatim>\<open>Math.floor(w / 2)\<close> on an
  integer \<open>w\<close> is \<open>w div 2\<close>.\<close>

definition newCharacter :: "gridSize \<Rightarrow> character" where
  "newCharacter gs =
     \<lparr>ch_gridSize = gs,
      segments = [\<lparr>cell_x = grid_w gs div 2, cell_y = grid_h gs div 2\<rparr>],
      direction = \<lparr>cell_x = 1, cell_y = 0\<rparr>,
      nextDirection = \<lparr>cell_x = 1, cell_y = 0\<rparr>,
      lastTailPosition = None\<rparr>"

subsection \<open>Character\<close>

text \<open>\<^verbatim>\<open>segments.some(segment => segment.x === X && segment.y === Y)\<close>.\<close>

definition occupies :: "cell list \<Rightarrow> int \<Rightarrow> int \<Rightarrow> bool" where
  "occupies segs X Y = list_ex (\<lambda>segment. cell_x segment = X \<and> cell_y segment = Y) segs"

definition setDirection :: "cell \<Rightarrow> character \<Rightarrow> character" where
  "setDirection newDirection c =
     (if length (segments c) > 1
         \<and> cell_x newDirection = - cell_x (direction c)
         \<and> cell_y newDirection = - cell_y (direction c)
      then c
      else c\<lparr>nextDirection := newDirection\<rparr>)"

text \<open>The cell \<^verbatim>\<open>move\<close> computes for the new head: the current head plus the
  direction that becomes active in this tick.\<close>

definition newHead :: "character \<Rightarrow> cell" where
  "newHead c =
     \<lparr>cell_x = cell_x (hd (segments c)) + cell_x (nextDirection c),
      cell_y = cell_y (hd (segments c)) + cell_y (nextDirection c)\<rparr>"

definition outsideGrid :: "gridSize \<Rightarrow> cell \<Rightarrow> bool" where
  "outsideGrid gs h =
     (cell_x h < 0 \<or> cell_x h \<ge> grid_w gs \<or> cell_y h < 0 \<or> cell_y h \<ge> grid_h gs)"

text \<open>
  \<^verbatim>\<open>Character.move\<close> returns a boolean and mutates the character; the model returns
  both. The direction is overwritten before either early return. The list of segments
  is never empty (the constructor makes one segment, \<open>move\<close> keeps the length and
  \<open>grow\<close> adds one: \<open>move_length\<close>, \<open>grow_length\<close>), so the first case is not
  reachable; it is given the value \<open>True\<close> with the segments untouched, which is
  what \<^verbatim>\<open>unshift\<close> followed by \<^verbatim>\<open>pop\<close> leaves of an empty array (there the
  source also stores an object without coordinates in \<^verbatim>\<open>_lastTailPosition\<close>,
  which the model leaves as it was). For the same reason \<open>last\<close> in \<open>grow\<close> and
  \<open>hd\<close> in \<open>c_update\<close> are only ever applied to a list with an element.
\<close>

definition move :: "character \<Rightarrow> bool \<times> character" where
  "move c =
     (let c1 = c\<lparr>direction := nextDirection c\<rparr> in
      case segments c1 of
        [] \<Rightarrow> (True, c1)
      | s0 # rest \<Rightarrow>
          let h = \<lparr>cell_x = cell_x s0 + cell_x (direction c1),
                   cell_y = cell_y s0 + cell_y (direction c1)\<rparr> in
          if outsideGrid (ch_gridSize c1) h then (False, c1)
          else if length (segments c1) > 1 \<and> occupies (tl (segments c1)) (cell_x h) (cell_y h)
          then (False, c1)
          else
            let tailPosition = last (segments c1) in
            (True, c1\<lparr>segments := butlast (h # segments c1),
                      lastTailPosition := Some tailPosition\<rparr>))"

definition grow :: "character \<Rightarrow> character" where
  "grow c =
     (case lastTailPosition c of
        Some t \<Rightarrow> c\<lparr>segments := segments c @ [t], lastTailPosition := None\<rparr>
      | None \<Rightarrow> c\<lparr>segments := segments c @ [last (segments c)]\<rparr>)"

subsection \<open>Game\<close>

text \<open>\<open>c_loopRunning\<close> says whether the interval of \<^verbatim>\<open>gameLoopInterval\<close> is
  active; \<open>c_console\<close> collects the messages of \<^verbatim>\<open>console.warn\<close> and
  \<^verbatim>\<open>console.error\<close>.\<close>

record collect_game =
  c_gridSize :: gridSize
  c_character :: character
  c_item :: cell
  c_score :: int
  c_highScore :: int
  c_localStorageKey :: string
  c_gameOver :: bool
  c_loopRunning :: bool
  c_localStorage :: storage
  c_random :: "real stream"
  c_characterImage :: "image option"
  c_itemImage :: "image option"
  c_backgroundImage :: "image option"
  c_console :: "string list"

text \<open>
  The cell one pass of the loop of \<^verbatim>\<open>spawnItem\<close> draws:
  \<^verbatim>\<open>Math.floor(Math.random() * w)\<close>, then \<^verbatim>\<open>Math.floor(Math.random() * h)\<close>.
\<close>

definition drawCell :: "gridSize \<Rightarrow> real stream \<Rightarrow> cell" where
  "drawCell gs rs =
     \<lparr>cell_x = \<lfloor>shd rs * of_int (grid_w gs)\<rfloor>,
      cell_y = \<lfloor>shd (stl rs) * of_int (grid_h gs)\<rfloor>\<rparr>"

text \<open>
  \<^verbatim>\<open>spawnItem\<close>: the \<^verbatim>\<open>while (collision)\<close> loop may run forever, so the function
  is partial; \<open>None\<close> is "does not return". It returns the cell of the new item and
  the rest of the random stream.
\<close>

partial_function (option) spawnItem ::
  "gridSize \<Rightarrow> cell list \<Rightarrow> real stream \<Rightarrow> (cell \<times> real stream) option" where
  "spawnItem gs segs rs =
     (let newItem = drawCell gs rs;
          collision = occupies segs (cell_x newItem) (cell_y newItem)
      in if collision then spawnItem gs segs (stl (stl rs))
         else Some (newItem, stl (stl rs)))"

declare spawnItem.simps [code]

definition c_saveHighScore :: "collect_game \<Rightarrow> collect_game" where
  "c_saveHighScore g =
     (if c_score g > c_highScore g
      then g\<lparr>c_highScore := c_score g,
             c_localStorage := setItem (c_localStorage g) (c_localStorageKey g) (c_score g)\<rparr>
      else g)"

definition c_loadHighScore :: "collect_game \<Rightarrow> collect_game" where
  "c_loadHighScore g =
     (case getItem (c_localStorage g) (c_localStorageKey g) of
        Some v \<Rightarrow> g\<lparr>c_highScore := v\<rparr>
      | None \<Rightarrow> g)"

definition endGame :: "collect_game \<Rightarrow> collect_game" where
  "endGame g = c_saveHighScore (g\<lparr>c_gameOver := True, c_loopRunning := False\<rparr>)"

definition c_spawnItem :: "collect_game \<Rightarrow> collect_game option" where
  "c_spawnItem g =
     (case spawnItem (c_gridSize g) (segments (c_character g)) (c_random g) of
        None \<Rightarrow> None
      | Some (it, rs) \<Rightarrow> Some (g\<lparr>c_item := it, c_random := rs\<rparr>))"

definition c_update :: "collect_game \<Rightarrow> collect_game option" where
  "c_update g =
     (case move (c_character g) of
        (False, ch) \<Rightarrow> Some (endGame (g\<lparr>c_character := ch\<rparr>))
      | (True, ch) \<Rightarrow>
          let hd0 = hd (segments ch) in
          if cell_x hd0 = cell_x (c_item g) \<and> cell_y hd0 = cell_y (c_item g)
          then c_spawnItem (g\<lparr>c_character := grow ch, c_score := c_score g + 1\<rparr>)
          else Some (g\<lparr>c_character := ch\<rparr>))"

text \<open>The callback of \<^verbatim>\<open>setInterval\<close> in \<^verbatim>\<open>startGameLoop\<close>.\<close>

definition c_tick :: "collect_game \<Rightarrow> collect_game option" where
  "c_tick g = (if \<not> c_gameOver g then c_update g else Some g)"

text \<open>\<^verbatim>\<open>Game.setup\<close> (\<open>setup\<close> is a keyword of Isabelle).\<close>

definition c_setup :: "collect_game \<Rightarrow> collect_game option" where
  "c_setup g =
     c_spawnItem (g\<lparr>c_score := 0, c_gameOver := False,
                    c_character := newCharacter (c_gridSize g)\<rparr>)"

definition startGameLoop :: "collect_game \<Rightarrow> collect_game" where
  "startGameLoop g = g\<lparr>c_loopRunning := True\<rparr>"

definition c_restart :: "collect_game \<Rightarrow> collect_game option" where
  "c_restart g = map_option startGameLoop (c_setup g)"

definition handleButtonClick :: "cell \<Rightarrow> collect_game \<Rightarrow> collect_game" where
  "handleButtonClick d g =
     (if \<not> c_gameOver g then g\<lparr>c_character := setDirection d (c_character g)\<rparr> else g)"

text \<open>
  The collector's \<^verbatim>\<open>loadImage\<close>: \<^verbatim>\<open>null\<close> for an empty source, the placeholder
  (and a warning) when the load fails. It never rejects.
\<close>

definition c_loadImage :: "network \<Rightarrow> string \<Rightarrow> string + (image option \<times> string list)" where
  "c_loadImage net src =
     (if src = [] then Inr (None, [])
      else if net src then Inr (Some (Image src), [])
      else Inr (Some Placeholder, [''Failed to load image: '' @ src]))"

record collect_config =
  cc_character_imageSrc :: string
  cc_item_imageSrc :: string
  cc_background_imageSrc :: string
  cc_grid_width :: int
  cc_grid_height :: int

definition c_gameConfig :: "assets \<Rightarrow> collect_config" where
  "c_gameConfig a =
     \<lparr>cc_character_imageSrc = as_character a,
      cc_item_imageSrc = as_item a,
      cc_background_imageSrc = as_background a,
      cc_grid_width = 20,
      cc_grid_height = 20\<rparr>"

text \<open>The constructor. \<^verbatim>\<open>character\<close> and \<^verbatim>\<open>item\<close> are \<^verbatim>\<open>null\<close> until
  \<open>c_setup\<close> assigns them; the record holds the values \<open>c_setup\<close> overwrites.\<close>

definition c_newGame :: "collect_config \<Rightarrow> string \<Rightarrow> storage \<Rightarrow> real stream \<Rightarrow> collect_game" where
  "c_newGame cfg topic st rs =
     \<lparr>c_gridSize = \<lparr>grid_w = cc_grid_width cfg, grid_h = cc_grid_height cfg\<rparr>,
      c_character = newCharacter \<lparr>grid_w = cc_grid_width cfg, grid_h = cc_grid_height cfg\<rparr>,
      c_item = \<lparr>cell_x = 0, cell_y = 0\<rparr>,
      c_score = 0,
      c_highScore = 0,
      c_localStorageKey = ''collectIt_highScore_'' @ topic,
      c_gameOver = False,
      c_loopRunning = False,
      c_localStorage = st,
      c_random = rs,
      c_characterImage = None,
      c_itemImage = None,
      c_backgroundImage = None,
      c_console = []\<rparr>"

text \<open>
  \<^verbatim>\<open>async init()\<close>: the three loads, then the high score, \<open>c_setup\<close> and the
  game loop. The \<^verbatim>\<open>catch\<close> branch logs and leaves the loop stopped.
\<close>

definition c_init :: "network \<Rightarrow> collect_config \<Rightarrow> collect_game \<Rightarrow> collect_game option" where
  "c_init net cfg g =
     (case promise_all
             [c_loadImage net (cc_character_imageSrc cfg),
              c_loadImage net (cc_item_imageSrc cfg),
              c_loadImage net (cc_background_imageSrc cfg)] of
        Inr [(ci, w1), (ii, w2), (bi, w3)] \<Rightarrow>
          map_option startGameLoop
            (c_setup (c_loadHighScore
               (g\<lparr>c_characterImage := ci, c_itemImage := ii, c_backgroundImage := bi,
                  c_console := c_console g @ w1 @ w2 @ w3\<rparr>)))
      | Inr _ \<Rightarrow> Some g
      | Inl err \<Rightarrow> Some (g\<lparr>c_console := c_console g @ [''Error initializing game: '' @ err]\<rparr>))"


section \<open>The dodge game\<close>

subsection \<open>Data\<close>

record bird =
  bird_x :: real
  bird_y :: real
  bird_width :: real
  bird_height :: real
  bird_velocity :: real

text \<open>\<^verbatim>\<open>class Pipe\<close>, without the image it draws.\<close>

record pipe =
  pipe_width :: real
  pipe_gapY :: real
  pipe_gapHeight :: real
  pipe_speed :: real
  pipe_x :: real
  pipe_scored :: bool

record bird_config =
  bc_imageSrc :: string
  bc_width :: real
  bc_height :: real

record pipe_config =
  pc_imageSrc :: string
  pc_width :: real
  pc_gapHeight :: real
  pc_speed :: real
  pc_spawnInterval :: real

record difficulty_config =
  speedIncreaseRate :: real
  gapDecreaseRate :: real

record dodge_config =
  cfg_bird :: bird_config
  cfg_pipe :: pipe_config
  cfg_background_imageSrc :: string
  cfg_difficulty :: difficulty_config

definition d_gameConfig :: "assets \<Rightarrow> dodge_config" where
  "d_gameConfig a =
     \<lparr>cfg_bird = \<lparr>bc_imageSrc = as_character a, bc_width = 40, bc_height = 40\<rparr>,
      cfg_pipe = \<lparr>pc_imageSrc = as_item a, pc_width = 120, pc_gapHeight = 200,
                  pc_speed = 200, pc_spawnInterval = 2.5\<rparr>,
      cfg_background_imageSrc = as_background a,
      cfg_difficulty = \<lparr>speedIncreaseRate = 2, gapDecreaseRate = 0.5\<rparr>\<rparr>"

text \<open>
  \<^verbatim>\<open>class Game\<close> of the dodge game. \<open>d_config\<close> is the configuration object the
  game holds a reference to and mutates. \<open>d_frameRequested\<close> says whether a callback
  of \<^verbatim>\<open>requestAnimationFrame\<close> is pending; \<open>d_console\<close> collects the messages of
  \<^verbatim>\<open>console.error\<close>. The scroll offset \<^verbatim>\<open>bgX\<close> of the background is read by
  \<^verbatim>\<open>render\<close> only and is left out.
\<close>

record dodge_game =
  d_canvas_width :: real
  d_canvas_height :: real
  d_config :: dodge_config
  d_bird :: bird
  d_birdImage :: "image option"
  d_pipeImage :: "image option"
  d_backgroundImage :: "image option"
  d_pipes :: "pipe list"
  d_pipeTimer :: real
  d_score :: int
  d_highScore :: int
  d_localStorageKey :: string
  d_gameOver :: bool
  d_lastTime :: real
  d_frameRequested :: bool
  d_localStorage :: storage
  d_random :: "real stream"
  d_console :: "string list"

definition gravity :: real where
  "gravity = 1500"

definition jumpVelocity :: real where
  "jumpVelocity = - 500"

subsection \<open>Pipe\<close>

definition newPipe :: "real \<Rightarrow> real \<Rightarrow> real \<Rightarrow> real \<Rightarrow> real \<Rightarrow> pipe" where
  "newPipe gapY gapHeight width speed canvasWidth =
     \<lparr>pipe_width = width, pipe_gapY = gapY, pipe_gapHeight = gapHeight,
      pipe_speed = speed, pipe_x = canvasWidth, pipe_scored = False\<rparr>"

definition pipe_update :: "real \<Rightarrow> pipe \<Rightarrow> pipe" where
  "pipe_update dt p = p\<lparr>pipe_x := pipe_x p - pipe_speed p * dt\<rparr>"

definition isColliding :: "pipe \<Rightarrow> bird \<Rightarrow> bool" where
  "isColliding p b =
     (if bird_x b + bird_width b > pipe_x p \<and> bird_x b < pipe_x p + pipe_width p
      then (if bird_y b < pipe_gapY p
               \<or> bird_y b + bird_height b > pipe_gapY p + pipe_gapHeight p
            then True else False)
      else False)"

subsection \<open>Game\<close>

text \<open>The dodge game's \<^verbatim>\<open>loadImage\<close> rejects when the load fails.\<close>

definition d_loadImage :: "network \<Rightarrow> string \<Rightarrow> string + image" where
  "d_loadImage net src =
     (if net src then Inr (Image src) else Inl (''Failed to load image: '' @ src))"

text \<open>The constructor; \<open>cw\<close> and \<open>ch\<close> are the size the canvas element has in
  the page, which \<open>d_init\<close> overwrites.\<close>

definition d_newGame ::
  "real \<Rightarrow> real \<Rightarrow> dodge_config \<Rightarrow> string \<Rightarrow> storage \<Rightarrow> real stream \<Rightarrow> dodge_game" where
  "d_newGame cw ch cfg topic st rs =
     \<lparr>d_canvas_width = cw,
      d_canvas_height = ch,
      d_config = cfg,
      d_bird = \<lparr>bird_x = 0, bird_y = 0, bird_width = bc_width (cfg_bird cfg),
                bird_height = bc_height (cfg_bird cfg), bird_velocity = 0\<rparr>,
      d_birdImage = None,
      d_pipeImage = None,
      d_backgroundImage = None,
      d_pipes = [],
      d_pipeTimer = 0,
      d_score = 0,
      d_highScore = 0,
      d_localStorageKey = ''dodgeDanger_highScore_'' @ topic,
      d_gameOver = False,
      d_lastTime = 0,
      d_frameRequested = False,
      d_localStorage = st,
      d_random = rs,
      d_console = []\<rparr>"

definition d_loadHighScore :: "dodge_game \<Rightarrow> dodge_game" where
  "d_loadHighScore g =
     (case getItem (d_localStorage g) (d_localStorageKey g) of
        Some v \<Rightarrow> g\<lparr>d_highScore := v\<rparr>
      | None \<Rightarrow> g)"

definition d_saveHighScore :: "dodge_game \<Rightarrow> dodge_game" where
  "d_saveHighScore g =
     (if d_score g > d_highScore g
      then g\<lparr>d_highScore := d_score g,
             d_localStorage := setItem (d_localStorage g) (d_localStorageKey g) (d_score g)\<rparr>
      else g)"

text \<open>\<open>now\<close> is the value of \<^verbatim>\<open>performance.now()\<close>.\<close>

definition d_restart :: "real \<Rightarrow> dodge_game \<Rightarrow> dodge_game" where
  "d_restart now g =
     g\<lparr>d_pipes := [],
       d_pipeTimer := 0,
       d_score := 0,
       d_gameOver := False,
       d_bird := (d_bird g)\<lparr>bird_y := d_canvas_height g / 2, bird_velocity := 0\<rparr>,
       d_lastTime := now,
       d_frameRequested := True\<rparr>"

text \<open>The vertical position of the gap of a new pipe, from the height of the canvas,
  the gap height of the configuration and one draw of \<^verbatim>\<open>Math.random()\<close>.\<close>

definition spawnGapY :: "real \<Rightarrow> real \<Rightarrow> real \<Rightarrow> real" where
  "spawnGapY canvasHeight gapHeight r =
     (let minY = gapHeight * 0.5;
          maxY = canvasHeight - gapHeight * 1.5
      in minY + r * (maxY - minY))"

text \<open>
  The body of \<^verbatim>\<open>if (this.pipeTimer <= 0)\<close> in \<^verbatim>\<open>update\<close>: a new pipe, a new
  timer, and the next difficulty written into the configuration.
\<close>

definition spawnPipe :: "dodge_game \<Rightarrow> dodge_game" where
  "spawnPipe g =
     (let cfg = d_config g;
          gapHeight = pc_gapHeight (cfg_pipe cfg);
          gapY = spawnGapY (d_canvas_height g) gapHeight (shd (d_random g));
          p = newPipe gapY gapHeight (pc_width (cfg_pipe cfg)) (pc_speed (cfg_pipe cfg))
                (d_canvas_width g);
          timer = pc_spawnInterval (cfg_pipe cfg) * (0.8 + shd (stl (d_random g)) * 0.4);
          pc1 = (cfg_pipe cfg)\<lparr>pc_speed := pc_speed (cfg_pipe cfg)
                                   + speedIncreaseRate (cfg_difficulty cfg)\<rparr>;
          pc2 = pc1\<lparr>pc_gapHeight := max 80 (pc_gapHeight pc1
                                   - gapDecreaseRate (cfg_difficulty cfg))\<rparr>
      in g\<lparr>d_pipes := d_pipes g @ [p],
           d_pipeTimer := timer,
           d_config := cfg\<lparr>cfg_pipe := pc2\<rparr>,
           d_random := stl (stl (d_random g))\<rparr>)"

text \<open>
  The callback of \<^verbatim>\<open>this.pipes.forEach\<close>: it mutates the pipe and the game. The
  model returns both.
\<close>

definition pipeBody :: "real \<Rightarrow> pipe \<Rightarrow> dodge_game \<Rightarrow> pipe \<times> dodge_game" where
  "pipeBody dt p g =
     (let p1 = pipe_update dt p;
          (p2, g1) =
            (if \<not> pipe_scored p1 \<and> pipe_x p1 + pipe_width p1 < bird_x (d_bird g)
             then (p1\<lparr>pipe_scored := True\<rparr>, g\<lparr>d_score := d_score g + 1\<rparr>)
             else (p1, g));
          g2 = (if isColliding p2 (d_bird g1)
                then d_saveHighScore (g1\<lparr>d_gameOver := True\<rparr>)
                else g1)
      in (p2, g2))"

fun forEachPipe :: "real \<Rightarrow> pipe list \<Rightarrow> dodge_game \<Rightarrow> pipe list \<times> dodge_game" where
  "forEachPipe dt [] g = ([], g)"
| "forEachPipe dt (p # ps) g =
     (let (p', g1) = pipeBody dt p g;
          (ps', g2) = forEachPipe dt ps g1
      in (p' # ps', g2))"

definition d_update :: "real \<Rightarrow> dodge_game \<Rightarrow> dodge_game" where
  "d_update dt g =
     (if d_gameOver g then g
      else
        let b0 = d_bird g;
            b1 = b0\<lparr>bird_velocity := bird_velocity b0 + gravity * dt\<rparr>;
            b2 = b1\<lparr>bird_y := bird_y b1 + bird_velocity b1 * dt\<rparr>;
            g1 = g\<lparr>d_bird := b2\<rparr>
        in
        if bird_y b2 < 0 \<or> bird_y b2 + bird_height b2 > d_canvas_height g1
        then d_saveHighScore (g1\<lparr>d_gameOver := True\<rparr>)
        else
          let g2 = g1\<lparr>d_pipeTimer := d_pipeTimer g1 - dt\<rparr>;
              g3 = (if d_pipeTimer g2 \<le> 0 then spawnPipe g2 else g2);
              (ps, g4) = forEachPipe dt (d_pipes g3) g3
          in g4\<lparr>d_pipes := filter (\<lambda>p. pipe_x p > - pipe_width p) ps\<rparr>)"

text \<open>\<^verbatim>\<open>loop(timestamp)\<close>, the callback of \<^verbatim>\<open>requestAnimationFrame\<close>: running it
  consumes the pending request, and it requests the next frame unless the game is
  over.\<close>

definition loop :: "real \<Rightarrow> dodge_game \<Rightarrow> dodge_game" where
  "loop timestamp g =
     (let dt = min ((timestamp - d_lastTime g) / 1000) 0.1;
          g1 = g\<lparr>d_lastTime := timestamp, d_frameRequested := False\<rparr>;
          g2 = d_update dt g1
      in if \<not> d_gameOver g2 then g2\<lparr>d_frameRequested := True\<rparr> else g2)"

definition jumpHandler :: "real \<Rightarrow> dodge_game \<Rightarrow> dodge_game" where
  "jumpHandler now g =
     (if \<not> d_gameOver g
      then g\<lparr>d_bird := (d_bird g)\<lparr>bird_velocity := jumpVelocity\<rparr>\<rparr>
      else d_restart now g)"

text \<open>The listener of \<^verbatim>\<open>resize\<close> registered by \<^verbatim>\<open>init\<close>.\<close>

definition resize :: "real \<Rightarrow> real \<Rightarrow> dodge_game \<Rightarrow> dodge_game" where
  "resize innerWidth innerHeight g =
     (let g1 = g\<lparr>d_canvas_width := innerWidth, d_canvas_height := innerHeight\<rparr>
      in if \<not> d_gameOver g1
         then g1\<lparr>d_bird := (d_bird g1)\<lparr>bird_x := d_canvas_width g1 * 0.2\<rparr>\<rparr>
         else g1)"

text \<open>
  \<^verbatim>\<open>init()\<close>: size the canvas, place the bird, then wait for the three images. When
  all three resolve the game starts; the \<^verbatim>\<open>catch\<close> branch only logs the error.
\<close>

definition d_init :: "real \<Rightarrow> real \<Rightarrow> network \<Rightarrow> real \<Rightarrow> dodge_game \<Rightarrow> dodge_game" where
  "d_init innerWidth innerHeight net now g =
     (let g1 = g\<lparr>d_canvas_width := innerWidth, d_canvas_height := innerHeight\<rparr>;
          g2 = g1\<lparr>d_bird := (d_bird g1)\<lparr>bird_x := d_canvas_width g1 * 0.2,
                                       bird_y := d_canvas_height g1 / 2\<rparr>\<rparr>
      in case promise_all
                [d_loadImage net (bc_imageSrc (cfg_bird (d_config g2))),
                 d_loadImage net (pc_imageSrc (cfg_pipe (d_config g2))),
                 d_loadImage net (cfg_background_imageSrc (d_config g2))] of
           Inr [birdImg, pipeImg, bgImg] \<Rightarrow>
             d_restart now
               (d_loadHighScore
                  (g2\<lparr>d_birdImage := Some birdImg, d_pipeImage := Some pipeImg,
                      d_backgroundImage := Some bgImg\<rparr>))
         | Inr _ \<Rightarrow> g2
         | Inl err \<Rightarrow> g2\<lparr>d_console := d_console g2 @ [err]\<rparr>)"

text \<open>
  What the browser can deliver to a game after \<open>d_init\<close>: a frame (only when one was
  requested), a tap or click, a resize of the window.
\<close>

datatype d_event = Frame real | Tap real | Resize real real

fun d_handle :: "d_event \<Rightarrow> dodge_game \<Rightarrow> dodge_game" where
  "d_handle (Frame timestamp) g = (if d_frameRequested g then loop timestamp g else g)"
| "d_handle (Tap now) g = jumpHandler now g"
| "d_handle (Resize w h) g = resize w h g"

fun d_run :: "d_event list \<Rightarrow> dodge_game \<Rightarrow> dodge_game" where
  "d_run [] g = g"
| "d_run (e # es) g = d_run es (d_handle e g)"


section \<open>Auxiliary definitions for the properties\<close>

subsection \<open>The collision test in the words of the design\<close>

text \<open>
  The design describes the collision test of a pipe by spans: the horizontal span of
  the bird overlaps the horizontal span of the pipe, and the vertical span
  \<open>[y, y + height]\<close> of the bird is outside the gap interval
  \<open>[gapY, gapY + gapHeight]\<close>, that is, not contained in it. Two spans overlap when
  their interiors meet.
\<close>

definition spec_horizontalOverlap :: "pipe \<Rightarrow> bird \<Rightarrow> bool" where
  "spec_horizontalOverlap p b \<longleftrightarrow>
     {bird_x b <..< bird_x b + bird_width b} \<inter> {pipe_x p <..< pipe_x p + pipe_width p} \<noteq> {}"

definition spec_outsideGap :: "pipe \<Rightarrow> bird \<Rightarrow> bool" where
  "spec_outsideGap p b \<longleftrightarrow>
     \<not> {bird_y b .. bird_y b + bird_height b}
          \<subseteq> {pipe_gapY p .. pipe_gapY p + pipe_gapHeight p}"

definition spec_collision :: "pipe \<Rightarrow> bird \<Rightarrow> bool" where
  "spec_collision p b \<longleftrightarrow> spec_horizontalOverlap p b \<and> spec_outsideGap p b"

subsection \<open>The life of one pipe\<close>

text \<open>
  The state of a running game at the moment \<^verbatim>\<open>update\<close> starts
  \<^verbatim>\<open>this.pipes.forEach\<close>: the bird has moved, the timer has counted down, and a pipe
  has been spawned when the timer ran out.
\<close>

definition beforePass :: "real \<Rightarrow> dodge_game \<Rightarrow> dodge_game" where
  "beforePass dt g =
     (let b0 = d_bird g;
          b1 = b0\<lparr>bird_velocity := bird_velocity b0 + gravity * dt\<rparr>;
          b2 = b1\<lparr>bird_y := bird_y b1 + bird_velocity b1 * dt\<rparr>;
          g1 = g\<lparr>d_bird := b2\<rparr>;
          g2 = g1\<lparr>d_pipeTimer := d_pipeTimer g1 - dt\<rparr>
      in if d_pipeTimer g2 \<le> 0 then spawnPipe g2 else g2)"

text \<open>\<^verbatim>\<open>update\<close> reaches \<^verbatim>\<open>this.pipes.forEach\<close>: the game is not over and the
  bird, after its move, is inside the canvas.\<close>

definition passRuns :: "real \<Rightarrow> dodge_game \<Rightarrow> bool" where
  "passRuns dt g \<longleftrightarrow>
     \<not> d_gameOver g
     \<and> 0 \<le> bird_y (d_bird (beforePass dt g))
     \<and> bird_y (d_bird (beforePass dt g)) + bird_height (d_bird (beforePass dt g))
          \<le> d_canvas_height g"

text \<open>
  What one call \<open>d_update dt g\<close> does to a pipe \<open>p\<close> of the game: the callback of
  \<^verbatim>\<open>forEach\<close> when the pass runs, nothing otherwise. The states of a pipe through
  the ticks \<open>dts\<close> of a game that starts in \<open>g\<close>; and the number of places in a
  list of flags where \<open>False\<close> is followed by \<open>True\<close>.
\<close>

definition pipeTick :: "real \<Rightarrow> dodge_game \<Rightarrow> pipe \<Rightarrow> pipe" where
  "pipeTick dt g p = (if passRuns dt g then fst (pipeBody dt p (beforePass dt g)) else p)"

fun pipeLife :: "real list \<Rightarrow> dodge_game \<Rightarrow> pipe \<Rightarrow> pipe list" where
  "pipeLife [] g p = [p]"
| "pipeLife (dt # dts) g p = p # pipeLife dts (d_update dt g) (pipeTick dt g p)"

fun risings :: "bool list \<Rightarrow> nat" where
  "risings (a # b # bs) = (if \<not> a \<and> b then 1 else 0) + risings (b # bs)"
| "risings bs = 0"

text \<open>The number of pipes that one pass of \<^verbatim>\<open>forEach\<close> turns from unscored to
  scored, given the pipes before and after the pass.\<close>

definition newlyScored :: "pipe list \<Rightarrow> pipe list \<Rightarrow> nat" where
  "newlyScored ps ps' =
     length (filter (\<lambda>(p, p'). \<not> pipe_scored p \<and> pipe_scored p') (zip ps ps'))"

subsection \<open>A fair sequence of draws\<close>

text \<open>
  A sequence of draws that sweeps the grid row by row, again and again: the pass
  \<open>n\<close> of the loop of \<open>spawnItem\<close> draws the cell
  \<open>(n mod w, (n div w) mod h)\<close>. Every draw lies in \<open>[0, 1)\<close>.
\<close>

definition sweepDraws :: "gridSize \<Rightarrow> real stream" where
  "sweepDraws gs =
     smap (\<lambda>k. if even k
                then real ((k div 2) mod nat (grid_w gs)) / real_of_int (grid_w gs)
                else real ((k div 2) div nat (grid_w gs) mod nat (grid_h gs))
                       / real_of_int (grid_h gs))
          nats"

subsection \<open>Concrete states of the collector\<close>

definition grid20 :: gridSize where
  "grid20 = \<lparr>grid_w = 20, grid_h = 20\<rparr>"


text \<open>A character of length four curled into a square: it went up, right and down,
  and now turns left, towards the cell of its own tail.\<close>

definition c2_character :: character where
  "c2_character =
     \<lparr>ch_gridSize = grid20,
      segments = [\<lparr>cell_x = 1, cell_y = 1\<rparr>, \<lparr>cell_x = 1, cell_y = 0\<rparr>,
                  \<lparr>cell_x = 0, cell_y = 0\<rparr>, \<lparr>cell_x = 0, cell_y = 1\<rparr>],
      direction = \<lparr>cell_x = 0, cell_y = 1\<rparr>,
      nextDirection = \<lparr>cell_x = - 1, cell_y = 0\<rparr>,
      lastTailPosition = Some \<lparr>cell_x = 0, cell_y = 2\<rparr>\<rparr>"

definition c2_game :: collect_game where
  "c2_game =
     \<lparr>c_gridSize = grid20,
      c_character = c2_character,
      c_item = \<lparr>cell_x = 5, cell_y = 5\<rparr>,
      c_score = 3,
      c_highScore = 0,
      c_localStorageKey = ''collectIt_highScore_default'',
      c_gameOver = False,
      c_loopRunning = True,
      c_localStorage = [],
      c_random = sconst 0,
      c_characterImage = None,
      c_itemImage = None,
      c_backgroundImage = None,
      c_console = []\<rparr>"

text \<open>The scenario on the 20x20 grid: the fresh character, head at (10,10) and moving
  right, with the item at (11,10); and the state one tick later when both draws of
  \<open>spawnItem\<close> are 0.\<close>

definition c3_game :: collect_game where
  "c3_game =
     \<lparr>c_gridSize = grid20,
      c_character = newCharacter grid20,
      c_item = \<lparr>cell_x = 11, cell_y = 10\<rparr>,
      c_score = 0,
      c_highScore = 0,
      c_localStorageKey = ''collectIt_highScore_default'',
      c_gameOver = False,
      c_loopRunning = True,
      c_localStorage = [],
      c_random = sconst 0,
      c_characterImage = None,
      c_itemImage = None,
      c_backgroundImage = None,
      c_console = []\<rparr>"

definition c3_after :: collect_game where
  "c3_after =
     c3_game\<lparr>c_character :=
                 \<lparr>ch_gridSize = grid20,
                  segments = [\<lparr>cell_x = 11, cell_y = 10\<rparr>, \<lparr>cell_x = 10, cell_y = 10\<rparr>],
                  direction = \<lparr>cell_x = 1, cell_y = 0\<rparr>,
                  nextDirection = \<lparr>cell_x = 1, cell_y = 0\<rparr>,
                  lastTailPosition = None\<rparr>,
              c_score := 1,
              c_item := \<lparr>cell_x = 0, cell_y = 0\<rparr>\<rparr>"

subsection \<open>Concrete runs of the dodge game\<close>

text \<open>The game as the page creates it for the default topic, with an empty
  \<^verbatim>\<open>localStorage\<close>; a network on which every image loads, and one on which the
  image of the character does not.\<close>

definition d_fresh :: "real stream \<Rightarrow> dodge_game" where
  "d_fresh rs = d_newGame 300 150 (d_gameConfig (configureGameAssets None)) ''default'' [] rs"

definition net_all :: network where
  "net_all src = True"

definition net_no_character :: network where
  "net_no_character src = (src \<noteq> as_character (configureGameAssets None))"

definition c1_failed :: dodge_game where
  "c1_failed = d_init 1000 800 net_no_character 0 (d_fresh (sconst 0))"

text \<open>A window 360 pixels high, as a phone held sideways has.\<close>

definition c6_start :: dodge_game where
  "c6_start = d_init 800 360 net_all 0 (d_fresh (sconst (1 / 2)))"

text \<open>
  A run in a window of 1000 by 800 pixels that is narrowed to 500 pixels after the
  first frame. Frames arrive every 100 ms; the player taps nine times. The second pipe
  is spawned at the new, smaller width and so lies to the left of the first one.
\<close>

definition c4_start :: dodge_game where
  "c4_start = d_init 1000 800 net_all 0 (d_fresh (3 / 4 ## 0 ## 3 / 4 ## 0 ## sconst 0))"

definition c4_events :: "d_event list" where
  "c4_events =
     [Frame 100, Resize 500 800, Frame 200, Frame 300, Frame 400, Frame 500,
      Tap 550, Frame 600, Frame 700, Frame 800, Frame 900,
      Tap 950, Frame 1000, Frame 1100, Frame 1200, Frame 1300,
      Tap 1350, Frame 1400, Frame 1500, Frame 1600, Frame 1700, Frame 1800, Frame 1900,
      Tap 1950, Frame 2000, Frame 2100, Frame 2200, Frame 2300,
      Tap 2350, Frame 2400, Frame 2500, Frame 2600, Frame 2700, Frame 2800, Frame 2900,
      Tap 2950, Frame 3000, Frame 3100, Frame 3200, Frame 3300, Frame 3400, Frame 3500,
      Tap 3550, Frame 3600, Frame 3700, Frame 3800, Frame 3900,
      Tap 3950, Frame 4000, Frame 4100, Frame 4200, Frame 4300, Frame 4400,
      Tap 4450, Frame 4500]"

text \<open>The state that run ends in, and the state after one more frame.\<close>

definition c4_before :: dodge_game where
  "c4_before =
     \<lparr>d_canvas_width = 500, d_canvas_height = 800,
      d_config =
        \<lparr>cfg_bird = cfg_bird (d_gameConfig (configureGameAssets None)),
         cfg_pipe = (cfg_pipe (d_gameConfig (configureGameAssets None)))
                      \<lparr>pc_gapHeight := 397 / 2, pc_speed := 206\<rparr>,
         cfg_background_imageSrc = as_background (configureGameAssets None),
         cfg_difficulty = cfg_difficulty (d_gameConfig (configureGameAssets None))\<rparr>,
      d_bird = \<lparr>bird_x = 100, bird_y = 410, bird_width = 40, bird_height = 40,
                bird_velocity = - 350\<rparr>,
      d_birdImage = Some (Image (as_character (configureGameAssets None))),
      d_pipeImage = Some (Image (as_item (configureGameAssets None))),
      d_backgroundImage = Some (Image (as_background (configureGameAssets None))),
      d_pipes =
        [\<lparr>pipe_width = 120, pipe_gapY = 400, pipe_gapHeight = 200,
          pipe_speed = 200, pipe_x = 100, pipe_scored = False\<rparr>,
         \<lparr>pipe_width = 120, pipe_gapY = 801 / 2, pipe_gapHeight = 399 / 2,
          pipe_speed = 202, pipe_x = - 5, pipe_scored = False\<rparr>,
         \<lparr>pipe_width = 120, pipe_gapY = 199 / 2, pipe_gapHeight = 199,
          pipe_speed = 204, pipe_x = 398, pipe_scored = False\<rparr>],
      d_pipeTimer = 8 / 5, d_score = 0, d_highScore = 0,
      d_localStorageKey = ''dodgeDanger_highScore_default'',
      d_gameOver = False, d_lastTime = 4500, d_frameRequested = True,
      d_localStorage = [], d_random = sconst 0, d_console = []\<rparr>"

definition c4_after :: dodge_game where
  "c4_after =
     c4_before
       \<lparr>d_bird := \<lparr>bird_x = 100, bird_y = 390, bird_width = 40, bird_height = 40,
                   bird_velocity = - 200\<rparr>,
        d_pipes :=
          [\<lparr>pipe_width = 120, pipe_gapY = 400, pipe_gapHeight = 200,
            pipe_speed = 200, pipe_x = 80, pipe_scored = False\<rparr>,
           \<lparr>pipe_width = 120, pipe_gapY = 801 / 2, pipe_gapHeight = 399 / 2,
            pipe_speed = 202, pipe_x = - (126 / 5), pipe_scored = True\<rparr>,
           \<lparr>pipe_width = 120, pipe_gapY = 199 / 2, pipe_gapHeight = 199,
            pipe_speed = 204, pipe_x = 1888 / 5, pipe_scored = False\<rparr>],
        d_pipeTimer := 3 / 2, d_score := 1, d_gameOver := True,
        d_lastTime := 4600, d_frameRequested := False\<rparr>"

text \<open>The second pipe of \<open>c4_before\<close>, and the first pipe and the bird of
  \<open>c4_after\<close>.\<close>

definition c7_pipe :: pipe where
  "c7_pipe = \<lparr>pipe_width = 120, pipe_gapY = 801 / 2, pipe_gapHeight = 399 / 2,
              pipe_speed = 202, pipe_x = - 5, pipe_scored = False\<rparr>"

definition c8_pipe :: pipe where
  "c8_pipe = \<lparr>pipe_width = 120, pipe_gapY = 400, pipe_gapHeight = 200,
              pipe_speed = 200, pipe_x = 80, pipe_scored = False\<rparr>"

definition c8_bird :: bird where
  "c8_bird = \<lparr>bird_x = 100, bird_y = 390, bird_width = 40, bird_height = 40,
              bird_velocity = - 200\<rparr>"


section \<open>Properties of the collector game\<close>

subsection \<open>Segments and cells\<close>

lemma occupies_iff: "occupies segs X Y \<longleftrightarrow> \<lparr>cell_x = X, cell_y = Y\<rparr> \<in> set segs"
proof -
  have "(\<exists>s\<in>set segs. cell_x s = X \<and> cell_y s = Y) \<longleftrightarrow> \<lparr>cell_x = X, cell_y = Y\<rparr> \<in> set segs"
  proof
    assume "\<exists>s\<in>set segs. cell_x s = X \<and> cell_y s = Y"
    then obtain s where s: "s \<in> set segs" "cell_x s = X" "cell_y s = Y" by blast
    then have "s = \<lparr>cell_x = X, cell_y = Y\<rparr>" by simp
    with s show "\<lparr>cell_x = X, cell_y = Y\<rparr> \<in> set segs" by simp
  next
    assume "\<lparr>cell_x = X, cell_y = Y\<rparr> \<in> set segs"
    then show "\<exists>s\<in>set segs. cell_x s = X \<and> cell_y s = Y" by force
  qed
  then show ?thesis by (simp add: occupies_def list_ex_iff)
qed

lemma occupies_cell: "occupies segs (cell_x c) (cell_y c) \<longleftrightarrow> c \<in> set segs"
  by (cases c) (simp add: occupies_iff)

text \<open>\<open>move\<close> and \<open>grow\<close> never empty the list of segments.\<close>

lemma move_segments_nonempty:
  "segments c \<noteq> [] \<Longrightarrow> segments (snd (move c)) \<noteq> []"
  by (auto simp: move_def Let_def split: list.splits)

lemma move_length:
  "segments c \<noteq> [] \<Longrightarrow> length (segments (snd (move c))) = length (segments c)"
  by (auto simp: move_def Let_def split: list.splits)

lemma grow_length: "length (segments (grow c)) = Suc (length (segments c))"
  by (simp add: grow_def split: option.splits)

lemma move_False_iff:
  assumes "segments c = s0 # rest"
  shows "fst (move c) = False \<longleftrightarrow>
           outsideGrid (ch_gridSize c) (newHead c) \<or> newHead c \<in> set rest"
proof -
  have "rest \<noteq> [] \<or> set rest = {}" by auto
  then show ?thesis using assms
    by (auto simp: move_def newHead_def Let_def occupies_iff)
qed

lemma c_spawnItem_gameOver:
  "c_spawnItem g = Some g' \<Longrightarrow> c_gameOver g' = c_gameOver g"
  by (auto simp: c_spawnItem_def split: option.splits)

lemma endGame_gameOver: "c_gameOver (endGame g)"
  by (simp add: endGame_def c_saveHighScore_def)

subsection \<open>When a tick ends the game\<close>

text \<open>
  Claim C2, as the code has it. For every tick of a running game, the game is over
  after the tick exactly when the new head (the current head plus the direction that
  becomes active) is outside the grid or in the cell of a segment other than the
  current head. The segments that are tested are \<^verbatim>\<open>segments.slice(1)\<close>: all but the
  head, the tail included.
\<close>

theorem tick_game_over_iff:
  assumes "\<not> c_gameOver g" and "segments (c_character g) = s0 # rest"
  shows "(\<exists>g'. c_tick g = Some g' \<and> c_gameOver g') \<longleftrightarrow>
           (outsideGrid (ch_gridSize (c_character g)) (newHead (c_character g))
            \<or> newHead (c_character g) \<in> set rest)"
proof -
  obtain ok ch where m: "move (c_character g) = (ok, ch)"
    by (cases "move (c_character g)")
  from move_False_iff[OF assms(2)] m
  have ok: "\<not> ok \<longleftrightarrow> (outsideGrid (ch_gridSize (c_character g)) (newHead (c_character g))
            \<or> newHead (c_character g) \<in> set rest)" by simp
  show ?thesis
  proof (cases ok)
    case False
    with m assms(1) have "c_tick g = Some (endGame (g\<lparr>c_character := ch\<rparr>))"
      by (simp add: c_tick_def c_update_def)
    with ok False show ?thesis by (simp add: endGame_gameOver)
  next
    case True
    have "\<not> c_gameOver g'" if "c_tick g = Some g'" for g'
      using that m True assms(1)
      by (auto simp: c_tick_def c_update_def Let_def split: if_splits
          dest: c_spawnItem_gameOver)
    with ok True show ?thesis by blast
  qed
qed

theorem tick_game_over_iff_witness:
  "\<not> c_gameOver c2_game
   \<and> segments (c_character c2_game) = \<lparr>cell_x = 1, cell_y = 1\<rparr> #
       [\<lparr>cell_x = 1, cell_y = 0\<rparr>, \<lparr>cell_x = 0, cell_y = 0\<rparr>, \<lparr>cell_x = 0, cell_y = 1\<rparr>]
   \<and> (\<exists>g'. c_tick c2_game = Some g' \<and> c_gameOver g')"
proof -
  have a: "\<not> c_gameOver c2_game" by (simp add: c2_game_def)
  have b: "segments (c_character c2_game) = \<lparr>cell_x = 1, cell_y = 1\<rparr> #
       [\<lparr>cell_x = 1, cell_y = 0\<rparr>, \<lparr>cell_x = 0, cell_y = 0\<rparr>, \<lparr>cell_x = 0, cell_y = 1\<rparr>]"
    by (simp add: c2_game_def c2_character_def)
  have c: "newHead (c_character c2_game)
             \<in> set [\<lparr>cell_x = 1, cell_y = 0\<rparr>, \<lparr>cell_x = 0, cell_y = 0\<rparr>, \<lparr>cell_x = 0, cell_y = 1\<rparr>]"
    by (simp add: c2_game_def c2_character_def newHead_def)
  from tick_game_over_iff[OF a b] c a b show ?thesis by blast
qed

text \<open>
  The curled character turns into the cell of its tail. That cell is inside the grid,
  it is the cell of no segment but the last, and the tick ends the game.
\<close>

theorem tail_cell_ends_game_counterexample:
  "\<not> outsideGrid grid20 (newHead c2_character)
   \<and> \<not> occupies (butlast (segments c2_character))
          (cell_x (newHead c2_character)) (cell_y (newHead c2_character))
   \<and> newHead c2_character = last (segments c2_character)
   \<and> \<not> c_gameOver c2_game
   \<and> map_option c_gameOver (c_tick c2_game) = Some True"
  by (simp add: c2_game_def c2_character_def newHead_def outsideGrid_def grid20_def
      occupies_def c_tick_def c_update_def move_def endGame_def c_saveHighScore_def)

subsection \<open>Collecting the item\<close>

text \<open>
  Claim C3, as the code has it. On the 20x20 grid, a character of length 1 with its
  head at (10,10) moves right and the item is at (11,10), the score being 0. If
  \<open>spawnItem\<close> returns, then after one tick the segments are (11,10), (10,10): the
  head is (11,10), the score is 1, and the length is 2 already, because \<open>grow\<close>
  appends the cell the tail has just left in the same tick. After the following tick
  the length is still 2 and the score still 1, unless the new item lies at (12,10).
\<close>

theorem collect_scenario_grows_at_once:
  assumes grid: "c_gridSize g = grid20"
    and char: "c_character g =
        \<lparr>ch_gridSize = grid20, segments = [\<lparr>cell_x = 10, cell_y = 10\<rparr>],
         direction = d, nextDirection = \<lparr>cell_x = 1, cell_y = 0\<rparr>, lastTailPosition = lt\<rparr>"
    and item: "c_item g = \<lparr>cell_x = 11, cell_y = 10\<rparr>"
    and score: "c_score g = 0"
    and running: "\<not> c_gameOver g"
    and spawn: "spawnItem grid20 [\<lparr>cell_x = 11, cell_y = 10\<rparr>, \<lparr>cell_x = 10, cell_y = 10\<rparr>]
                  (c_random g) = Some (it, rs)"
  shows "\<exists>g1. c_tick g = Some g1
           \<and> segments (c_character g1) = [\<lparr>cell_x = 11, cell_y = 10\<rparr>, \<lparr>cell_x = 10, cell_y = 10\<rparr>]
           \<and> c_score g1 = 1
           \<and> c_item g1 = it
           \<and> (it \<noteq> \<lparr>cell_x = 12, cell_y = 10\<rparr> \<longrightarrow>
                (\<exists>g2. c_tick g1 = Some g2
                   \<and> segments (c_character g2)
                       = [\<lparr>cell_x = 12, cell_y = 10\<rparr>, \<lparr>cell_x = 11, cell_y = 10\<rparr>]
                   \<and> c_score g2 = 1))"
proof -
  define ch1 where "ch1 = \<lparr>ch_gridSize = grid20,
      segments = [\<lparr>cell_x = 11, cell_y = 10\<rparr>, \<lparr>cell_x = 10, cell_y = 10\<rparr>],
      direction = \<lparr>cell_x = 1, cell_y = 0\<rparr>, nextDirection = \<lparr>cell_x = 1, cell_y = 0\<rparr>,
      lastTailPosition = None\<rparr>"
  define g1 where "g1 = g\<lparr>c_character := ch1, c_score := 1, c_item := it, c_random := rs\<rparr>"
  have mv: "move (c_character g) = (True, \<lparr>ch_gridSize = grid20,
      segments = [\<lparr>cell_x = 11, cell_y = 10\<rparr>],
      direction = \<lparr>cell_x = 1, cell_y = 0\<rparr>, nextDirection = \<lparr>cell_x = 1, cell_y = 0\<rparr>,
      lastTailPosition = Some \<lparr>cell_x = 10, cell_y = 10\<rparr>\<rparr>)"
    by (simp add: char move_def outsideGrid_def grid20_def)
  have t1: "c_tick g = Some g1"
    using running item score spawn grid
    by (simp add: c_tick_def c_update_def mv grow_def c_spawnItem_def g1_def ch1_def)
  have mv2: "move ch1 = (True, \<lparr>ch_gridSize = grid20,
      segments = [\<lparr>cell_x = 12, cell_y = 10\<rparr>, \<lparr>cell_x = 11, cell_y = 10\<rparr>],
      direction = \<lparr>cell_x = 1, cell_y = 0\<rparr>, nextDirection = \<lparr>cell_x = 1, cell_y = 0\<rparr>,
      lastTailPosition = Some \<lparr>cell_x = 10, cell_y = 10\<rparr>\<rparr>)"
    by (simp add: ch1_def move_def outsideGrid_def grid20_def occupies_def)
  have t2: "\<exists>g2. c_tick g1 = Some g2
              \<and> segments (c_character g2)
                  = [\<lparr>cell_x = 12, cell_y = 10\<rparr>, \<lparr>cell_x = 11, cell_y = 10\<rparr>]
              \<and> c_score g2 = 1"
    if "it \<noteq> \<lparr>cell_x = 12, cell_y = 10\<rparr>"
  proof -
    from that have "\<not> (cell_x it = 12 \<and> cell_y it = 10)"
      by (cases it) auto
    then show ?thesis using running
      by (auto simp add: c_tick_def c_update_def g1_def mv2)
  qed
  show ?thesis
    using t1 t2 by (intro exI[of _ g1]) (simp add: g1_def ch1_def)
qed

theorem collect_scenario_grows_at_once_witness:
  "c_gridSize c3_game = grid20
   \<and> c_item c3_game = \<lparr>cell_x = 11, cell_y = 10\<rparr>
   \<and> c_score c3_game = 0
   \<and> \<not> c_gameOver c3_game
   \<and> spawnItem grid20 [\<lparr>cell_x = 11, cell_y = 10\<rparr>, \<lparr>cell_x = 10, cell_y = 10\<rparr>]
        (c_random c3_game) = Some (\<lparr>cell_x = 0, cell_y = 0\<rparr>, sconst 0)
   \<and> (\<exists>g1. c_tick c3_game = Some g1
           \<and> segments (c_character g1) = [\<lparr>cell_x = 11, cell_y = 10\<rparr>, \<lparr>cell_x = 10, cell_y = 10\<rparr>]
           \<and> c_score g1 = 1
           \<and> (\<exists>g2. c_tick g1 = Some g2
                   \<and> segments (c_character g2)
                       = [\<lparr>cell_x = 12, cell_y = 10\<rparr>, \<lparr>cell_x = 11, cell_y = 10\<rparr>]
                   \<and> c_score g2 = 1))"
proof -
  have grid: "c_gridSize c3_game = grid20" by (simp add: c3_game_def)
  have char: "c_character c3_game =
        \<lparr>ch_gridSize = grid20, segments = [\<lparr>cell_x = 10, cell_y = 10\<rparr>],
         direction = \<lparr>cell_x = 1, cell_y = 0\<rparr>, nextDirection = \<lparr>cell_x = 1, cell_y = 0\<rparr>,
         lastTailPosition = None\<rparr>"
    by (simp add: c3_game_def newCharacter_def grid20_def)
  have item: "c_item c3_game = \<lparr>cell_x = 11, cell_y = 10\<rparr>" by (simp add: c3_game_def)
  have score: "c_score c3_game = 0" by (simp add: c3_game_def)
  have running: "\<not> c_gameOver c3_game" by (simp add: c3_game_def)
  have spawn: "spawnItem grid20 [\<lparr>cell_x = 11, cell_y = 10\<rparr>, \<lparr>cell_x = 10, cell_y = 10\<rparr>]
        (c_random c3_game) = Some (\<lparr>cell_x = 0, cell_y = 0\<rparr>, sconst 0)"
    by (subst spawnItem.simps) (simp add: c3_game_def drawCell_def occupies_def)
  have ne: "\<lparr>cell_x = 0, cell_y = 0\<rparr> \<noteq> \<lparr>cell_x = 12, cell_y = 10\<rparr>" by simp
  from collect_scenario_grows_at_once[OF grid char item score running spawn] ne
  show ?thesis using grid item score running spawn by blast
qed

text \<open>In the scenario the length is 2, not 1, at the end of the first tick.\<close>

theorem growth_is_not_deferred_counterexample:
  "c_tick c3_game = Some c3_after \<and> length (segments (c_character c3_after)) = 2"
  apply (simp add: c3_game_def c3_after_def c_tick_def c_update_def move_def newCharacter_def
      grid20_def outsideGrid_def grow_def c_spawnItem_def)
  apply (subst spawnItem.simps)
  apply (simp add: drawCell_def occupies_def)
  done


subsection \<open>Respawning the item\<close>

text \<open>If the \<open>n\<close>-th pair of draws lands on a free cell, the loop returns.\<close>

lemma spawnItem_hit:
  "drawCell gs (sdrop (2 * n) rs) \<notin> set segs \<Longrightarrow>
     \<exists>it rs'. spawnItem gs segs rs = Some (it, rs') \<and> it \<notin> set segs"
proof (induction n arbitrary: rs)
  case 0
  then show ?case
    by (subst spawnItem.simps) (simp add: occupies_cell Let_def)
next
  case (Suc n)
  have "drawCell gs (sdrop (2 * n) (stl (stl rs))) \<notin> set segs"
    using Suc.prems by simp
  from Suc.IH[OF this] obtain it rs' where
    r: "spawnItem gs segs (stl (stl rs)) = Some (it, rs')" "it \<notin> set segs" by blast
  show ?case
  proof (cases "drawCell gs rs \<in> set segs")
    case True
    then show ?thesis using r
      by (subst spawnItem.simps) (simp add: occupies_cell Let_def)
  next
    case False
    then show ?thesis
      by (subst spawnItem.simps) (simp add: occupies_cell Let_def)
  qed
qed

text \<open>What the loop returns is the first pair of draws that lands on a free cell;
  by induction over the iterations of the loop.\<close>

lemma spawnItem_Some_raw:
  assumes "spawnItem gs segs rs = Some y"
  shows "\<exists>n. fst y = drawCell gs (sdrop (2 * n) rs) \<and> fst y \<notin> set segs
        \<and> snd y = sdrop (2 * Suc n) rs
        \<and> (\<forall>k<n. drawCell gs (sdrop (2 * k) rs) \<in> set segs)"
proof (rule spawnItem.raw_induct
    [where P = "\<lambda>gs segs rs y. \<exists>n. fst y = drawCell gs (sdrop (2 * n) rs) \<and> fst y \<notin> set segs
        \<and> snd y = sdrop (2 * Suc n) rs
        \<and> (\<forall>k<n. drawCell gs (sdrop (2 * k) rs) \<in> set segs)", OF _ assms])
  fix f :: "gridSize \<Rightarrow> cell list \<Rightarrow> real stream \<Rightarrow> (cell \<times> real stream) option"
  fix gs segs rs y
  assume IH: "\<And>gs segs rs y. f gs segs rs = Some y \<Longrightarrow>
      \<exists>n. fst y = drawCell gs (sdrop (2 * n) rs) \<and> fst y \<notin> set segs
        \<and> snd y = sdrop (2 * Suc n) rs
        \<and> (\<forall>k<n. drawCell gs (sdrop (2 * k) rs) \<in> set segs)"
  assume eq: "(let newItem = drawCell gs rs;
                   collision = occupies segs (cell_x newItem) (cell_y newItem)
               in if collision then f gs segs (stl (stl rs))
                  else Some (newItem, stl (stl rs))) = Some y"
  show "\<exists>n. fst y = drawCell gs (sdrop (2 * n) rs) \<and> fst y \<notin> set segs
        \<and> snd y = sdrop (2 * Suc n) rs
        \<and> (\<forall>k<n. drawCell gs (sdrop (2 * k) rs) \<in> set segs)"
  proof (cases "drawCell gs rs \<in> set segs")
    case True
    with eq have "f gs segs (stl (stl rs)) = Some y"
      by (simp add: occupies_cell Let_def)
    from IH[OF this] obtain n where n: "fst y = drawCell gs (sdrop (2 * n) (stl (stl rs)))"
      "fst y \<notin> set segs" "snd y = sdrop (2 * Suc n) (stl (stl rs))"
      "\<forall>k<n. drawCell gs (sdrop (2 * k) (stl (stl rs))) \<in> set segs" by blast
    have "\<forall>k<Suc n. drawCell gs (sdrop (2 * k) rs) \<in> set segs"
    proof (intro allI impI)
      fix k assume "k < Suc n"
      then show "drawCell gs (sdrop (2 * k) rs) \<in> set segs"
        using True n(4) by (cases k) auto
    qed
    with n(1,2,3) show ?thesis
      by (intro exI[of _ "Suc n"]) simp
  next
    case False
    with eq have "fst y = drawCell gs rs" "snd y = stl (stl rs)"
      by (auto simp add: occupies_cell Let_def)
    with False show ?thesis by (intro exI[of _ 0]) (simp add: numeral_2_eq_2)
  qed
qed

lemma spawnItem_Some_D:
  "spawnItem gs segs rs = Some (it, rs') \<Longrightarrow>
     \<exists>n. it = drawCell gs (sdrop (2 * n) rs) \<and> it \<notin> set segs \<and> rs' = sdrop (2 * Suc n) rs
        \<and> (\<forall>k<n. drawCell gs (sdrop (2 * k) rs) \<in> set segs)"
  using spawnItem_Some_raw[of gs segs rs "(it, rs')"] by simp

lemma spawnItem_None_iff:
  "spawnItem gs segs rs = None \<longleftrightarrow> (\<forall>n. drawCell gs (sdrop (2 * n) rs) \<in> set segs)"
proof
  assume "spawnItem gs segs rs = None"
  then show "\<forall>n. drawCell gs (sdrop (2 * n) rs) \<in> set segs"
    using spawnItem_hit[of gs _ rs segs] by fastforce
next
  assume a: "\<forall>n. drawCell gs (sdrop (2 * n) rs) \<in> set segs"
  show "spawnItem gs segs rs = None"
  proof (rule ccontr)
    assume "spawnItem gs segs rs \<noteq> None"
    then obtain it rs' where "spawnItem gs segs rs = Some (it, rs')" by auto
    from spawnItem_Some_D[OF this] a show False by blast
  qed
qed




text \<open>The sweep is fair: it draws every cell of the grid, and only numbers in
  \<open>[0, 1)\<close>.\<close>

lemma nats_snth: "nats !! k = k"
  by (induction k) simp_all





lemma sweep_unit:
  assumes "0 < grid_w gs" "0 < grid_h gs" "r \<in> sset (sweepDraws gs)"
  shows "0 \<le> r \<and> r < 1"
proof -
  from assms(3) obtain k where k: "r = sweepDraws gs !! k"
    by (auto simp: sset_range)
  have w: "real (a mod nat (grid_w gs)) < real_of_int (grid_w gs)" for a
  proof -
    have "a mod nat (grid_w gs) < nat (grid_w gs)" using assms(1) by simp
    then show ?thesis using assms(1) by linarith
  qed
  have h: "real (a mod nat (grid_h gs)) < real_of_int (grid_h gs)" for a
  proof -
    have "a mod nat (grid_h gs) < nat (grid_h gs)" using assms(2) by simp
    then show ?thesis using assms(2) by linarith
  qed
  show ?thesis
    unfolding k using assms(1,2) w h
    by (simp add: sweepDraws_def nats_snth)
qed



text \<open>The draws have to be fair: on the 20x20 grid with the one segment (10,10), a
  sequence that draws 1/2 every time draws the cell (10,10) in every pass.\<close>

lemma spawnItem_constant_draws:
  "spawnItem grid20 [\<lparr>cell_x = 10, cell_y = 10\<rparr>] (sconst (1 / 2)) = None"
proof -
  have "sdrop n (sconst (1 / 2 :: real)) = sconst (1 / 2)" for n
    by (induction n) simp_all
  then show ?thesis
    by (simp add: spawnItem_None_iff drawCell_def grid20_def)
qed

subsection \<open>The high score and the start of the collector\<close>

lemma c_saveHighScore_max:
  "c_highScore (c_saveHighScore g) = max (c_highScore g) (c_score g)
   \<and> c_score (c_saveHighScore g) = c_score g"
  by (simp add: c_saveHighScore_def)

lemma c_saveHighScore_storage:
  "c_localStorage (c_saveHighScore g) =
     (if c_score g > c_highScore g
      then setItem (c_localStorage g) (c_localStorageKey g) (c_score g)
      else c_localStorage g)"
  by (simp add: c_saveHighScore_def)

text \<open>In the collector the tick that ends a run saves once, with the final score.\<close>

lemma c_tick_game_over_saves:
  assumes "\<not> c_gameOver g" "c_tick g = Some g'" "c_gameOver g'"
  shows "c_score g' = c_score g \<and> c_highScore g' = max (c_highScore g) (c_score g')
     \<and> c_localStorage g' =
         (if c_score g > c_highScore g
          then setItem (c_localStorage g) (c_localStorageKey g) (c_score g)
          else c_localStorage g)"
proof -
  obtain ok ch where m: "move (c_character g) = (ok, ch)"
    by (cases "move (c_character g)")
  show ?thesis
  proof (cases ok)
    case False
    with m assms(1,2) have "g' = endGame (g\<lparr>c_character := ch\<rparr>)"
      by (simp add: c_tick_def c_update_def)
    then show ?thesis by (simp add: endGame_def c_saveHighScore_def)
  next
    case True
    with m assms have False
      by (auto simp: c_tick_def c_update_def Let_def split: if_splits
          dest: c_spawnItem_gameOver)
    then show ?thesis ..
  qed
qed

text \<open>The collector's loader has no rejecting branch, so \<open>c_init\<close> reaches
  \<open>c_setup\<close> and the game loop whatever the network does.\<close>

lemma c_loadImage_resolves: "\<exists>v. c_loadImage net src = Inr v"
  by (simp add: c_loadImage_def)

lemma c_init_starts:
  assumes "c_init net cfg g = Some g'"
  shows "c_loopRunning g' \<and> \<not> c_gameOver g'"
proof -
  obtain v1 where 1: "c_loadImage net (cc_character_imageSrc cfg) = Inr v1"
    using c_loadImage_resolves by blast
  obtain v2 where 2: "c_loadImage net (cc_item_imageSrc cfg) = Inr v2"
    using c_loadImage_resolves by blast
  obtain v3 where 3: "c_loadImage net (cc_background_imageSrc cfg) = Inr v3"
    using c_loadImage_resolves by blast
  from assms show ?thesis
    by (cases v1; cases v2; cases v3)
      (auto simp: c_init_def 1 2 3 startGameLoop_def c_setup_def c_spawnItem_def
        split: option.splits)
qed


section \<open>Properties of the dodge game\<close>

subsection \<open>The collision test\<close>

lemma isColliding_iff:
  "isColliding p b \<longleftrightarrow>
     (pipe_x p < bird_x b + bird_width b \<and> bird_x b < pipe_x p + pipe_width p)
     \<and> (bird_y b < pipe_gapY p \<or> pipe_gapY p + pipe_gapHeight p < bird_y b + bird_height b)"
  by (auto simp: isColliding_def)

lemma open_spans_meet:
  fixes a b c d :: real
  assumes "a < b" "c < d"
  shows "{a <..< b} \<inter> {c <..< d} \<noteq> {} \<longleftrightarrow> c < b \<and> a < d"
proof -
  have "{a <..< b} \<inter> {c <..< d} = {max a c <..< min b d}" by auto
  then have "{a <..< b} \<inter> {c <..< d} \<noteq> {} \<longleftrightarrow> max a c < min b d"
    by (simp add: greaterThanLessThan_empty_iff not_le)
  then show ?thesis using assms by auto
qed

lemma spec_collision_iff:
  assumes "0 < bird_width b" "0 < pipe_width p" "0 \<le> bird_height b"
  shows "spec_collision p b \<longleftrightarrow>
     (pipe_x p < bird_x b + bird_width b \<and> bird_x b < pipe_x p + pipe_width p)
     \<and> (bird_y b < pipe_gapY p \<or> pipe_gapY p + pipe_gapHeight p < bird_y b + bird_height b)"
proof -
  have h: "spec_horizontalOverlap p b \<longleftrightarrow>
      pipe_x p < bird_x b + bird_width b \<and> bird_x b < pipe_x p + pipe_width p"
    unfolding spec_horizontalOverlap_def using assms(1,2)
    by (subst open_spans_meet) auto
  have v: "spec_outsideGap p b \<longleftrightarrow>
      bird_y b < pipe_gapY p \<or> pipe_gapY p + pipe_gapHeight p < bird_y b + bird_height b"
    unfolding spec_outsideGap_def using assms(3)
    by (auto simp: atLeastatMost_subset_iff)
  show ?thesis by (simp add: spec_collision_def h v)
qed

text \<open>
  Claim C8. \<open>isColliding\<close> is true exactly when the bird starts left of the right
  edge of the pipe and ends right of its left edge, and its top is above the gap or
  its bottom below it. For a bird and a pipe of positive width and a bird of
  non-negative height, as the configuration makes them, this says: the horizontal span
  of the bird overlaps the horizontal span of the pipe and the vertical span
  \<open>[y, y + height]\<close> of the bird is not inside the gap interval
  \<open>[gapY, gapY + gapHeight]\<close>.
\<close>

theorem isColliding_spec:
  "(isColliding p b \<longleftrightarrow>
      (pipe_x p < bird_x b + bird_width b \<and> bird_x b < pipe_x p + pipe_width p)
      \<and> (bird_y b < pipe_gapY p
          \<or> pipe_gapY p + pipe_gapHeight p < bird_y b + bird_height b))
   \<and> (0 < bird_width b \<and> 0 < pipe_width p \<and> 0 \<le> bird_height b \<longrightarrow>
        (isColliding p b \<longleftrightarrow> spec_collision p b))"
  using spec_collision_iff[of b p] isColliding_iff[of p b] by blast

theorem isColliding_spec_witness:
  "0 < bird_width c8_bird \<and> 0 < pipe_width c8_pipe \<and> 0 \<le> bird_height c8_bird
   \<and> isColliding c8_pipe c8_bird \<and> spec_collision c8_pipe c8_bird"
proof -
  have a: "0 < bird_width c8_bird" by (simp add: c8_bird_def)
  have b: "0 < pipe_width c8_pipe" by (simp add: c8_pipe_def)
  have c: "0 \<le> bird_height c8_bird" by (simp add: c8_bird_def)
  have d: "isColliding c8_pipe c8_bird"
    by (simp add: isColliding_def c8_pipe_def c8_bird_def)
  from isColliding_spec[of c8_pipe c8_bird] d a b c show ?thesis by blast
qed

subsection \<open>Scoring a pipe\<close>

lemma d_saveHighScore_score [simp]: "d_score (d_saveHighScore g) = d_score g"
  by (simp add: d_saveHighScore_def)

lemma d_saveHighScore_bird [simp]: "d_bird (d_saveHighScore g) = d_bird g"
  by (simp add: d_saveHighScore_def)

lemma pipeBody_scored:
  "pipe_scored (fst (pipeBody dt p g)) \<longleftrightarrow>
     pipe_scored p \<or> pipe_x p - pipe_speed p * dt + pipe_width p < bird_x (d_bird g)"
  by (auto simp: pipeBody_def pipe_update_def Let_def split: prod.splits if_splits)

lemma pipeBody_score:
  "d_score (snd (pipeBody dt p g)) =
     d_score g + (if \<not> pipe_scored p \<and> pipe_scored (fst (pipeBody dt p g)) then 1 else 0)"
  by (auto simp: pipeBody_def pipe_update_def Let_def split: prod.splits if_splits)

lemma forEachPipe_length: "length (fst (forEachPipe dt ps g)) = length ps"
  by (induction ps arbitrary: g) (simp_all add: split_beta Let_def)

lemma forEachPipe_scored_mono:
  "i < length ps \<Longrightarrow> pipe_scored (ps ! i) \<Longrightarrow> pipe_scored (fst (forEachPipe dt ps g) ! i)"
proof (induction ps arbitrary: g i)
  case Nil
  then show ?case by simp
next
  case (Cons p ps)
  then show ?case
    by (cases i) (simp_all add: split_beta Let_def pipeBody_scored)
qed

lemma forEachPipe_score:
  "d_score (snd (forEachPipe dt ps g)) =
     d_score g + int (newlyScored ps (fst (forEachPipe dt ps g)))"
proof (induction ps arbitrary: g)
  case Nil
  then show ?case by (simp add: newlyScored_def)
next
  case (Cons p ps)
  show ?case
    using Cons.IH[of "snd (pipeBody dt p g)"] pipeBody_score[of dt p g]
    by (simp add: split_beta Let_def newlyScored_def)
qed

lemma pipeBody_bird [simp]: "d_bird (snd (pipeBody dt p g)) = d_bird g"
  by (auto simp: pipeBody_def Let_def split: prod.splits if_splits)

lemma pipeBody_fst_bird:
  "d_bird g' = d_bird g \<Longrightarrow> fst (pipeBody dt p g') = fst (pipeBody dt p g)"
  by (auto simp: pipeBody_def Let_def split: prod.splits if_splits)

lemma forEachPipe_map_gen:
  "d_bird g' = d_bird g \<Longrightarrow>
     fst (forEachPipe dt ps g') = map (\<lambda>p. fst (pipeBody dt p g)) ps"
proof (induction ps arbitrary: g')
  case Nil
  then show ?case by simp
next
  case (Cons p ps)
  have "d_bird (snd (pipeBody dt p g')) = d_bird g" using Cons.prems by simp
  from Cons.IH[OF this] pipeBody_fst_bird[OF Cons.prems, of dt p]
  show ?case by (simp add: split_beta Let_def)
qed

lemma forEachPipe_map:
  "fst (forEachPipe dt ps g) = map (\<lambda>p. fst (pipeBody dt p g)) ps"
  by (rule forEachPipe_map_gen) simp

lemma forEachPipe_link:
  assumes "i < length ps"
  shows "pipe_scored (fst (forEachPipe dt ps g) ! i) \<longleftrightarrow>
           pipe_scored (ps ! i)
           \<or> pipe_x (ps ! i) - pipe_speed (ps ! i) * dt + pipe_width (ps ! i) < bird_x (d_bird g)"
  using assms by (simp add: forEachPipe_map pipeBody_scored)

lemma beforePass_facts:
  "d_score (beforePass dt g) = d_score g"
  "bird_x (d_bird (beforePass dt g)) = bird_x (d_bird g)"
  "bird_height (d_bird (beforePass dt g)) = bird_height (d_bird g)"
  "d_canvas_height (beforePass dt g) = d_canvas_height g"
  "take (length (d_pipes g)) (d_pipes (beforePass dt g)) = d_pipes g"
  by (simp_all add: beforePass_def spawnPipe_def Let_def)

lemma d_update_pass:
  assumes "passRuns dt g"
  shows "d_update dt g =
     (snd (forEachPipe dt (d_pipes (beforePass dt g)) (beforePass dt g)))
       \<lparr>d_pipes := filter (\<lambda>p. pipe_x p > - pipe_width p)
                     (fst (forEachPipe dt (d_pipes (beforePass dt g)) (beforePass dt g)))\<rparr>"
proof -
  have by1: "bird_y (d_bird (beforePass dt g))
      = bird_y (d_bird g) + (bird_velocity (d_bird g) + gravity * dt) * dt"
    by (simp add: beforePass_def spawnPipe_def Let_def)
  have a: "\<not> d_gameOver g"
    "0 \<le> bird_y (d_bird g) + (bird_velocity (d_bird g) + gravity * dt) * dt"
    "bird_y (d_bird g) + (bird_velocity (d_bird g) + gravity * dt) * dt
       + bird_height (d_bird g) \<le> d_canvas_height g"
    using assms by (simp_all add: passRuns_def by1 beforePass_facts)
  then show ?thesis
    by (simp add: d_update_def beforePass_def Let_def split_beta not_less)
qed

lemma d_update_no_pass:
  assumes "\<not> passRuns dt g"
  shows "d_pipes (d_update dt g) = d_pipes g \<and> d_score (d_update dt g) = d_score g"
proof -
  have by1: "bird_y (d_bird (beforePass dt g))
      = bird_y (d_bird g) + (bird_velocity (d_bird g) + gravity * dt) * dt"
    by (simp add: beforePass_def spawnPipe_def Let_def)
  have "d_gameOver g
      \<or> bird_y (d_bird g) + (bird_velocity (d_bird g) + gravity * dt) * dt < 0
      \<or> bird_y (d_bird g) + (bird_velocity (d_bird g) + gravity * dt) * dt
           + bird_height (d_bird g) > d_canvas_height g"
    using assms by (auto simp add: passRuns_def by1 beforePass_facts)
  then show ?thesis
    by (auto simp: d_update_def Let_def d_saveHighScore_def)
qed

lemma pipeTick_pass:
  "passRuns dt g \<Longrightarrow> pipeTick dt g = (\<lambda>p. fst (pipeBody dt p (beforePass dt g)))"
  by (simp add: pipeTick_def fun_eq_iff)

lemma d_update_pipes:
  assumes "passRuns dt g"
  shows "d_pipes (d_update dt g) =
           filter (\<lambda>p. pipe_x p > - pipe_width p)
             (map (pipeTick dt g) (d_pipes (beforePass dt g)))"
  using assms by (simp add: d_update_pass forEachPipe_map pipeTick_pass)

lemma d_update_score:
  assumes "passRuns dt g"
  shows "d_score (d_update dt g) =
           d_score g + int (newlyScored (d_pipes (beforePass dt g))
                              (map (pipeTick dt g) (d_pipes (beforePass dt g))))"
  using assms forEachPipe_score[of dt "d_pipes (beforePass dt g)" "beforePass dt g"]
  by (simp add: d_update_pass forEachPipe_map pipeTick_pass beforePass_facts)

lemma pipeTick_scored:
  "pipe_scored (pipeTick dt g p) \<longleftrightarrow>
     pipe_scored p
     \<or> (passRuns dt g \<and> pipe_x p - pipe_speed p * dt + pipe_width p < bird_x (d_bird g))"
  by (simp add: pipeTick_def pipeBody_scored beforePass_facts)

lemma pipeLife_shape: "\<exists>ps. pipeLife dts g p = p # ps"
  by (cases dts) auto

lemma risings_pipeLife:
  "risings (map pipe_scored (pipeLife dts g p)) \<le> (if pipe_scored p then 0 else 1)"
proof (induction dts arbitrary: g p)
  case Nil
  then show ?case by simp
next
  case (Cons dt dts)
  let ?p' = "pipeTick dt g p"
  let ?g' = "d_update dt g"
  have ih: "risings (map pipe_scored (pipeLife dts ?g' ?p'))
              \<le> (if pipe_scored ?p' then 0 else 1)"
    by (rule Cons.IH)
  obtain ps where shape: "pipeLife dts ?g' ?p' = ?p' # ps"
    using pipeLife_shape by blast
  have "risings (map pipe_scored (pipeLife (dt # dts) g p))
      = (if \<not> pipe_scored p \<and> pipe_scored ?p' then 1 else 0)
        + risings (map pipe_scored (pipeLife dts ?g' ?p'))"
    by (simp add: shape)
  with ih show ?case
    by (auto simp: pipeTick_scored split: if_splits)
qed

text \<open>
  Claim C7. Through the ticks of any run of \<open>d_update\<close> the flag \<open>scored\<close> of a
  pipe goes from false to true at most once. A tick leaves a pipe scored exactly when
  it was scored before or the pass over the pipes runs and, after the move of this
  tick, the trailing edge \<open>x + width\<close> of the pipe is to the left of \<open>bird.x\<close>.
  When the pass runs, the pipes after \<open>d_update\<close> are the pipes before the pass, each
  one taken through its tick, without those that left the screen, and the score has
  grown by the number of pipes that became scored; when it does not run, pipes and
  score stay as they are. The pass \<open>forEachPipe\<close> applies the callback to every
  pipe, and the callback adds 1 to the score exactly when it turns a pipe scored.
\<close>

theorem scored_once:
  "risings (map pipe_scored (pipeLife dts g p)) \<le> 1
   \<and> (pipe_scored (pipeTick dt g p) \<longleftrightarrow>
        pipe_scored p
        \<or> (passRuns dt g
            \<and> pipe_x (pipeTick dt g p) + pipe_width (pipeTick dt g p) < bird_x (d_bird g)))
   \<and> (passRuns dt g \<longrightarrow>
        d_pipes (d_update dt g) =
          filter (\<lambda>q. pipe_x q > - pipe_width q)
            (map (pipeTick dt g) (d_pipes (beforePass dt g)))
        \<and> d_score (d_update dt g) =
            d_score g + int (newlyScored (d_pipes (beforePass dt g))
                               (map (pipeTick dt g) (d_pipes (beforePass dt g)))))
   \<and> (\<not> passRuns dt g \<longrightarrow>
        d_pipes (d_update dt g) = d_pipes g \<and> d_score (d_update dt g) = d_score g)
   \<and> take (length (d_pipes g)) (d_pipes (beforePass dt g)) = d_pipes g
   \<and> fst (forEachPipe dt ps g) = map (\<lambda>q. fst (pipeBody dt q g)) ps
   \<and> (i < length ps \<longrightarrow>
        (pipe_scored (fst (forEachPipe dt ps g) ! i) \<longleftrightarrow>
           pipe_scored (ps ! i)
           \<or> pipe_x (ps ! i) - pipe_speed (ps ! i) * dt + pipe_width (ps ! i)
               < bird_x (d_bird g)))
   \<and> d_score (snd (forEachPipe dt ps g)) =
        d_score g + int (newlyScored ps (fst (forEachPipe dt ps g)))
   \<and> (pipe_scored p \<longrightarrow> pipe_scored (fst (pipeBody dt p g)))
   \<and> (\<not> pipe_scored p \<longrightarrow>
        (pipe_scored (fst (pipeBody dt p g)) \<longleftrightarrow>
           pipe_x (fst (pipeBody dt p g)) + pipe_width (fst (pipeBody dt p g))
             < bird_x (d_bird g)))
   \<and> d_score (snd (pipeBody dt p g)) =
        d_score g + (if \<not> pipe_scored p \<and> pipe_scored (fst (pipeBody dt p g)) then 1 else 0)"
proof (intro conjI)
  show "risings (map pipe_scored (pipeLife dts g p)) \<le> 1"
    using risings_pipeLife[of dts g p] by (simp split: if_splits)
  show "pipe_scored (pipeTick dt g p) \<longleftrightarrow>
        pipe_scored p
        \<or> (passRuns dt g
            \<and> pipe_x (pipeTick dt g p) + pipe_width (pipeTick dt g p) < bird_x (d_bird g))"
    by (auto simp: pipeTick_def pipeBody_def pipe_update_def Let_def beforePass_facts
        split: prod.splits if_splits)
  show "passRuns dt g \<longrightarrow>
        d_pipes (d_update dt g) =
          filter (\<lambda>q. pipe_x q > - pipe_width q)
            (map (pipeTick dt g) (d_pipes (beforePass dt g)))
        \<and> d_score (d_update dt g) =
            d_score g + int (newlyScored (d_pipes (beforePass dt g))
                               (map (pipeTick dt g) (d_pipes (beforePass dt g))))"
    using d_update_pipes[of dt g] d_update_score[of dt g] by blast
  show "\<not> passRuns dt g \<longrightarrow>
        d_pipes (d_update dt g) = d_pipes g \<and> d_score (d_update dt g) = d_score g"
    using d_update_no_pass[of dt g] by blast
  show "take (length (d_pipes g)) (d_pipes (beforePass dt g)) = d_pipes g"
    by (rule beforePass_facts)
  show "fst (forEachPipe dt ps g) = map (\<lambda>q. fst (pipeBody dt q g)) ps"
    by (rule forEachPipe_map)
  show "i < length ps \<longrightarrow>
        (pipe_scored (fst (forEachPipe dt ps g) ! i) \<longleftrightarrow>
           pipe_scored (ps ! i)
           \<or> pipe_x (ps ! i) - pipe_speed (ps ! i) * dt + pipe_width (ps ! i)
               < bird_x (d_bird g))"
    using forEachPipe_link[of i ps dt g] by blast
  show "d_score (snd (forEachPipe dt ps g)) =
        d_score g + int (newlyScored ps (fst (forEachPipe dt ps g)))"
    by (rule forEachPipe_score)
  show "pipe_scored p \<longrightarrow> pipe_scored (fst (pipeBody dt p g))"
    by (simp add: pipeBody_scored)
  show "\<not> pipe_scored p \<longrightarrow>
        (pipe_scored (fst (pipeBody dt p g)) \<longleftrightarrow>
           pipe_x (fst (pipeBody dt p g)) + pipe_width (fst (pipeBody dt p g))
             < bird_x (d_bird g))"
    by (auto simp: pipeBody_def pipe_update_def Let_def split: prod.splits if_splits)
  show "d_score (snd (pipeBody dt p g)) =
        d_score g + (if \<not> pipe_scored p \<and> pipe_scored (fst (pipeBody dt p g)) then 1 else 0)"
    by (rule pipeBody_score)
qed

lemmas w_defs = pipeTick_def passRuns_def beforePass_def pipeBody_def pipe_update_def
  isColliding_def spawnPipe_def d_saveHighScore_def gravity_def Let_def

theorem scored_once_witness:
  "passRuns (1 / 10) c4_before
   \<and> \<not> pipe_scored c7_pipe
   \<and> pipe_scored (pipeTick (1 / 10) c4_before c7_pipe)
   \<and> pipe_x (pipeTick (1 / 10) c4_before c7_pipe)
        + pipe_width (pipeTick (1 / 10) c4_before c7_pipe) < bird_x (d_bird c4_before)
   \<and> map pipe_scored (d_pipes (d_update (1 / 10) c4_before)) = [False, True, False]
   \<and> d_score (d_update (1 / 10) c4_before) = d_score c4_before + 1
   \<and> (1::nat) < length (d_pipes c4_before)
   \<and> pipe_scored (fst (forEachPipe (1 / 10) (d_pipes c4_before) c4_before) ! 1)
   \<and> \<not> passRuns (1 / 10) c4_after
   \<and> d_pipes (d_update (1 / 10) c4_after) = d_pipes c4_after
   \<and> risings (map pipe_scored (pipeLife [1 / 10, 1 / 10] c4_before c7_pipe)) \<le> 1"
proof -
  note t = scored_once[where dts = "[1 / 10, 1 / 10]" and g = c4_before and p = c7_pipe
      and dt = "1 / 10" and ps = "d_pipes c4_before" and i = 1]
  note u = scored_once[where dts = "[]" and g = c4_after and p = c7_pipe
      and dt = "1 / 10" and ps = "[]" and i = 0]
  have run: "passRuns (1 / 10) c4_before"
    by (simp add: c4_before_def w_defs)
  have stop: "\<not> passRuns (1 / 10) c4_after"
    by (simp add: c4_after_def passRuns_def)
  have a: "\<not> pipe_scored c7_pipe" by (simp add: c7_pipe_def)
  have edge: "pipe_x (pipeTick (1 / 10) c4_before c7_pipe)
        + pipe_width (pipeTick (1 / 10) c4_before c7_pipe) < bird_x (d_bird c4_before)"
    by (simp add: c4_before_def c7_pipe_def w_defs)
  have len: "(1::nat) < length (d_pipes c4_before)" by (simp add: c4_before_def)
  have at1: "d_pipes c4_before ! 1 = c7_pipe" by (simp add: c4_before_def c7_pipe_def)
  have bx: "pipe_x c7_pipe - pipe_speed c7_pipe * (1 / 10) + pipe_width c7_pipe
              < bird_x (d_bird c4_before)"
    by (simp add: c4_before_def c7_pipe_def)
  have pipes: "map pipe_scored (map (pipeTick (1 / 10) c4_before)
                  (d_pipes (beforePass (1 / 10) c4_before))) = [False, True, False]"
    by (simp add: c4_before_def w_defs)
  have kept: "filter (\<lambda>q. pipe_x q > - pipe_width q)
                (map (pipeTick (1 / 10) c4_before) (d_pipes (beforePass (1 / 10) c4_before)))
              = map (pipeTick (1 / 10) c4_before) (d_pipes (beforePass (1 / 10) c4_before))"
    by (simp add: c4_before_def w_defs)
  have new: "newlyScored (d_pipes (beforePass (1 / 10) c4_before))
               (map (pipeTick (1 / 10) c4_before) (d_pipes (beforePass (1 / 10) c4_before))) = 1"
    by (simp add: newlyScored_def c4_before_def w_defs)
  from t have r: "risings (map pipe_scored (pipeLife [1 / 10, 1 / 10] c4_before c7_pipe)) \<le> 1"
    by blast
  from t run edge have sc: "pipe_scored (pipeTick (1 / 10) c4_before c7_pipe)"
    by blast
  from t run have up: "d_pipes (d_update (1 / 10) c4_before) =
          filter (\<lambda>q. pipe_x q > - pipe_width q)
            (map (pipeTick (1 / 10) c4_before) (d_pipes (beforePass (1 / 10) c4_before)))"
    and us: "d_score (d_update (1 / 10) c4_before) =
            d_score c4_before + int (newlyScored (d_pipes (beforePass (1 / 10) c4_before))
               (map (pipeTick (1 / 10) c4_before) (d_pipes (beforePass (1 / 10) c4_before))))"
    by blast+
  have p1: "map pipe_scored (d_pipes (d_update (1 / 10) c4_before)) = [False, True, False]"
    unfolding up kept by (rule pipes)
  have s1: "d_score (d_update (1 / 10) c4_before) = d_score c4_before + 1"
    unfolding us new by simp
  from t have "1 < length (d_pipes c4_before) \<longrightarrow>
        (pipe_scored (fst (forEachPipe (1 / 10) (d_pipes c4_before) c4_before) ! 1) \<longleftrightarrow>
           pipe_scored (d_pipes c4_before ! 1)
           \<or> pipe_x (d_pipes c4_before ! 1) - pipe_speed (d_pipes c4_before ! 1) * (1 / 10)
                + pipe_width (d_pipes c4_before ! 1) < bird_x (d_bird c4_before))"
    by blast
  with len bx have fe: "pipe_scored (fst (forEachPipe (1 / 10) (d_pipes c4_before) c4_before) ! 1)"
    unfolding at1 by blast
  from u stop have u1: "d_pipes (d_update (1 / 10) c4_after) = d_pipes c4_after"
    by blast
  from run a sc edge p1 s1 len fe stop u1 r show ?thesis by blast
qed


subsection \<open>Restart and the difficulty\<close>

text \<open>
  Claim C10. \<open>d_restart\<close> empties the pipes, sets the timer and the score to 0,
  clears \<open>gameOver\<close>, puts the bird at half the height of the canvas with velocity 0,
  and leaves the configuration as it is. Every spawn adds \<open>speedIncreaseRate\<close> to
  the pipe speed of the configuration and lowers its gap height by
  \<open>gapDecreaseRate\<close>, not below 80. So the first pipe spawned after a restart has
  the speed and the gap height the configuration had when the previous run ended.
\<close>

theorem restart_keeps_difficulty:
  "d_config (d_restart now g) = d_config g
   \<and> d_pipes (d_restart now g) = []
   \<and> d_pipeTimer (d_restart now g) = 0
   \<and> d_score (d_restart now g) = 0
   \<and> \<not> d_gameOver (d_restart now g)
   \<and> bird_y (d_bird (d_restart now g)) = d_canvas_height g / 2
   \<and> bird_velocity (d_bird (d_restart now g)) = 0
   \<and> pc_speed (cfg_pipe (d_config (spawnPipe g)))
        = pc_speed (cfg_pipe (d_config g)) + speedIncreaseRate (cfg_difficulty (d_config g))
   \<and> pc_gapHeight (cfg_pipe (d_config (spawnPipe g)))
        = max 80 (pc_gapHeight (cfg_pipe (d_config g))
                   - gapDecreaseRate (cfg_difficulty (d_config g)))
   \<and> pipe_speed (last (d_pipes (spawnPipe (d_restart now g))))
        = pc_speed (cfg_pipe (d_config g))
   \<and> pipe_gapHeight (last (d_pipes (spawnPipe (d_restart now g))))
        = pc_gapHeight (cfg_pipe (d_config g))"
  by (simp add: d_restart_def spawnPipe_def Let_def newPipe_def)

subsection \<open>After the game is over\<close>

text \<open>
  Claim C5. While \<open>gameOver\<close> holds, \<open>d_update\<close> returns the state of the dodge game
  as it is; a frame, were one delivered, leaves the bird, the pipes, the score, the
  high score and the configuration as they are; and the callback of the collector's
  interval returns the state of the collector as it is.
\<close>

theorem game_over_freezes:
  "(d_gameOver g \<longrightarrow> d_update dt g = g)
   \<and> (d_gameOver g \<longrightarrow>
        d_bird (loop t g) = d_bird g \<and> d_pipes (loop t g) = d_pipes g
        \<and> d_score (loop t g) = d_score g \<and> d_highScore (loop t g) = d_highScore g
        \<and> d_config (loop t g) = d_config g \<and> d_gameOver (loop t g))
   \<and> (c_gameOver cg \<longrightarrow> c_tick cg = Some cg)"
  by (simp add: d_update_def loop_def c_tick_def Let_def)

theorem game_over_freezes_witness:
  "d_gameOver c4_after
   \<and> d_update (1 / 10) c4_after = c4_after
   \<and> d_score (loop 4700 c4_after) = 1
   \<and> c_gameOver (endGame c2_game)
   \<and> c_tick (endGame c2_game) = Some (endGame c2_game)"
proof -
  have a: "d_gameOver c4_after" by (simp add: c4_after_def)
  have b: "c_gameOver (endGame c2_game)" by (rule endGame_gameOver)
  have c: "d_score c4_after = 1" by (simp add: c4_after_def)
  from game_over_freezes[of c4_after "1 / 10" 4700 "endGame c2_game"] a b c
  show ?thesis by simp
qed

subsection \<open>The gap of a new pipe\<close>

text \<open>
  Claim C6, as the code has it. When the canvas is at least twice as high as the gap of
  the configuration, a draw in \<open>[0, 1)\<close> gives the new pipe a \<open>gapY\<close> between
  \<open>gapHeight * 0.5\<close> and \<open>canvasHeight - gapHeight * 1.5\<close>; with a gap height of
  200 that is between 100 and \<open>canvasHeight - 300\<close>.
\<close>

theorem spawn_gap_in_range:
  assumes "0 \<le> shd (d_random g)" "shd (d_random g) < 1"
    and "2 * pc_gapHeight (cfg_pipe (d_config g)) \<le> d_canvas_height g"
  shows "pipe_gapHeight (last (d_pipes (spawnPipe g))) = pc_gapHeight (cfg_pipe (d_config g))
     \<and> pc_gapHeight (cfg_pipe (d_config g)) * 0.5 \<le> pipe_gapY (last (d_pipes (spawnPipe g)))
     \<and> pipe_gapY (last (d_pipes (spawnPipe g)))
         \<le> d_canvas_height g - pc_gapHeight (cfg_pipe (d_config g)) * 1.5
     \<and> (pc_gapHeight (cfg_pipe (d_config g)) = 200 \<longrightarrow>
          100 \<le> pipe_gapY (last (d_pipes (spawnPipe g)))
          \<and> pipe_gapY (last (d_pipes (spawnPipe g))) \<le> d_canvas_height g - 300)"
proof -
  define gh where "gh = pc_gapHeight (cfg_pipe (d_config g))"
  define H where "H = d_canvas_height g"
  define r where "r = shd (d_random g)"
  have y: "pipe_gapY (last (d_pipes (spawnPipe g))) = gh * 0.5 + r * (H - gh * 1.5 - gh * 0.5)"
    by (simp add: spawnPipe_def Let_def newPipe_def spawnGapY_def gh_def H_def r_def)
  have d: "0 \<le> H - gh * 1.5 - gh * 0.5" using assms(3) by (simp add: gh_def H_def)
  have r: "0 \<le> r" "r \<le> 1" using assms(1,2) by (simp_all add: r_def)
  have lo: "0 \<le> r * (H - gh * 1.5 - gh * 0.5)" using r(1) d by simp
  have hi: "r * (H - gh * 1.5 - gh * 0.5) \<le> H - gh * 1.5 - gh * 0.5"
    using mult_right_mono[OF r(2) d] by simp
  have gheq: "pipe_gapHeight (last (d_pipes (spawnPipe g))) = gh"
    by (simp add: spawnPipe_def Let_def newPipe_def gh_def)
  show ?thesis
    unfolding y gheq using lo hi by (auto simp: gh_def[symmetric] H_def[symmetric])
qed

lemmas d_defs = d_fresh_def net_all_def d_init_def d_newGame_def
  d_gameConfig_def d_loadImage_def
  d_loadHighScore_def getItem_def d_restart_def loop_def d_update_def spawnPipe_def
  spawnGapY_def newPipe_def pipeBody_def pipe_update_def isColliding_def
  d_saveHighScore_def setItem_def jumpHandler_def resize_def gravity_def jumpVelocity_def
  Let_def

theorem spawn_gap_in_range_witness:
  "0 \<le> shd (d_random c4_start) \<and> shd (d_random c4_start) < 1
   \<and> 2 * pc_gapHeight (cfg_pipe (d_config c4_start)) \<le> d_canvas_height c4_start
   \<and> pc_gapHeight (cfg_pipe (d_config c4_start)) = 200
   \<and> 100 \<le> pipe_gapY (last (d_pipes (spawnPipe c4_start)))
   \<and> pipe_gapY (last (d_pipes (spawnPipe c4_start))) \<le> d_canvas_height c4_start - 300"
proof -
  have a: "0 \<le> shd (d_random c4_start)" by (simp add: c4_start_def d_defs)
  have b: "shd (d_random c4_start) < 1" by (simp add: c4_start_def d_defs)
  have c: "2 * pc_gapHeight (cfg_pipe (d_config c4_start)) \<le> d_canvas_height c4_start"
    by (simp add: c4_start_def d_defs)
  have d: "pc_gapHeight (cfg_pipe (d_config c4_start)) = 200"
    by (simp add: c4_start_def d_defs)
  from spawn_gap_in_range[OF a b c] a b c d show ?thesis by blast
qed

text \<open>In a window 360 pixels high the first pipe has a gap of height 200 at
  \<open>gapY = 80\<close>, which is less than 100.\<close>

theorem small_canvas_gap_counterexample:
  "pipe_gapHeight (hd (d_pipes (d_run [Frame 16] c6_start))) = 200
   \<and> pipe_gapY (hd (d_pipes (d_run [Frame 16] c6_start))) = 80
   \<and> \<not> (200 * 0.5 \<le> pipe_gapY (hd (d_pipes (d_run [Frame 16] c6_start))))"
  by (simp add: c6_start_def d_defs)


subsection \<open>Loading the images\<close>

text \<open>A game whose loop was never requested stays that way: a frame is not
  delivered, a tap only sets the velocity, a resize only moves the bird sideways.\<close>

lemma not_started_handle:
  assumes "\<not> d_frameRequested g" "\<not> d_gameOver g"
  shows "\<not> d_frameRequested (d_handle e g) \<and> \<not> d_gameOver (d_handle e g)
     \<and> d_pipes (d_handle e g) = d_pipes g \<and> d_score (d_handle e g) = d_score g
     \<and> bird_y (d_bird (d_handle e g)) = bird_y (d_bird g)"
  using assms by (cases e) (simp_all add: jumpHandler_def resize_def Let_def)

lemma not_started_run:
  "\<not> d_frameRequested g \<Longrightarrow> \<not> d_gameOver g \<Longrightarrow>
     \<not> d_frameRequested (d_run es g) \<and> \<not> d_gameOver (d_run es g)
     \<and> d_pipes (d_run es g) = d_pipes g \<and> d_score (d_run es g) = d_score g
     \<and> bird_y (d_bird (d_run es g)) = bird_y (d_bird g)"
proof (induction es arbitrary: g)
  case Nil
  then show ?case by simp
next
  case (Cons e es)
  from not_started_handle[OF Cons.prems, of e] Cons.IH[of "d_handle e g"]
  show ?case by simp
qed

lemma c1_failed_state:
  "\<not> d_frameRequested c1_failed \<and> \<not> d_gameOver c1_failed
   \<and> d_console c1_failed = [''Failed to load image: '' @ as_character (configureGameAssets None)]
   \<and> d_birdImage c1_failed = None
   \<and> d_pipeImage c1_failed = None \<and> d_backgroundImage c1_failed = None
   \<and> d_pipes c1_failed = [] \<and> d_score c1_failed = 0 \<and> bird_y (d_bird c1_failed) = 400"
  by (simp add: c1_failed_def net_no_character_def d_fresh_def d_init_def d_newGame_def
      d_gameConfig_def d_loadImage_def Let_def)

text \<open>
  Claim C1 fails in the dodge game. When the image of the character does not load
  (the other two do), \<open>d_init\<close> writes the error to the console and nothing else: no
  image is assigned, no frame is requested, and whatever the player does afterwards no
  frame ever runs; the pipes stay empty, the score 0 and the bird at its first height.
  The collector's loader resolves with a placeholder instead (\<open>c_init_starts\<close>).
\<close>

theorem dodge_load_failure_is_fatal:
  "d_console c1_failed = [''Failed to load image: '' @ as_character (configureGameAssets None)]
   \<and> d_birdImage c1_failed = None \<and> d_pipeImage c1_failed = None
   \<and> d_backgroundImage c1_failed = None
   \<and> (\<forall>es. \<not> d_frameRequested (d_run es c1_failed) \<and> d_pipes (d_run es c1_failed) = []
         \<and> d_score (d_run es c1_failed) = 0 \<and> bird_y (d_bird (d_run es c1_failed)) = 400)"
proof -
  have a: "\<not> d_frameRequested c1_failed" "\<not> d_gameOver c1_failed"
    using c1_failed_state by simp_all
  show ?thesis using not_started_run[OF a] c1_failed_state by simp
qed

subsection \<open>The high score of the dodge game\<close>

lemma d_saveHighScore_max:
  "d_highScore (d_saveHighScore g) = max (d_highScore g) (d_score g)"
  by (simp add: d_saveHighScore_def)

lemma d_saveHighScore_storage:
  "d_localStorage (d_saveHighScore g) =
     (if d_score g > d_highScore g
      then setItem (d_localStorage g) (d_localStorageKey g) (d_score g)
      else d_localStorage g)"
  by (simp add: d_saveHighScore_def)

text \<open>When the bird leaves the canvas, \<open>d_update\<close> saves once and returns: the high
  score is the larger of the old one and the final score.\<close>

lemma d_update_bounds_saves:
  assumes "\<not> d_gameOver g"
    and "bird_y (d_bird g) + (bird_velocity (d_bird g) + gravity * dt) * dt < 0
         \<or> bird_y (d_bird g) + (bird_velocity (d_bird g) + gravity * dt) * dt
              + bird_height (d_bird g) > d_canvas_height g"
  shows "d_gameOver (d_update dt g) \<and> d_score (d_update dt g) = d_score g
     \<and> d_highScore (d_update dt g) = max (d_highScore g) (d_score g)
     \<and> d_localStorage (d_update dt g) =
         (if d_score g > d_highScore g
          then setItem (d_localStorage g) (d_localStorageKey g) (d_score g)
          else d_localStorage g)"
  using assms by (auto simp: d_update_def Let_def d_saveHighScore_def)

text \<open>No event lowers the high score.\<close>

lemma pipeBody_highScore: "d_highScore g \<le> d_highScore (snd (pipeBody dt p g))"
  by (auto simp: pipeBody_def Let_def d_saveHighScore_def split: prod.splits if_splits)

lemma forEachPipe_highScore: "d_highScore g \<le> d_highScore (snd (forEachPipe dt ps g))"
proof (induction ps arbitrary: g)
  case Nil
  then show ?case by simp
next
  case (Cons p ps)
  have "d_highScore g \<le> d_highScore (snd (pipeBody dt p g))"
    by (rule pipeBody_highScore)
  also have "\<dots> \<le> d_highScore (snd (forEachPipe dt ps (snd (pipeBody dt p g))))"
    by (rule Cons.IH)
  finally show ?case by (simp add: split_beta Let_def)
qed

lemma d_update_highScore: "d_highScore g \<le> d_highScore (d_update dt g)"
proof -
  have sp: "d_highScore (spawnPipe g') = d_highScore g'" for g'
    by (simp add: spawnPipe_def Let_def)
  show ?thesis
    using forEachPipe_highScore
    by (auto simp: d_update_def Let_def split_beta sp d_saveHighScore_def
        intro: order_trans[OF _ forEachPipe_highScore])
qed

lemma d_handle_highScore: "d_highScore g \<le> d_highScore (d_handle e g)"
proof (cases e)
  case (Frame t)
  have "d_highScore g \<le> d_highScore (loop t g)"
    using d_update_highScore[of "g\<lparr>d_lastTime := t, d_frameRequested := False\<rparr>"]
    by (simp add: loop_def Let_def)
  with Frame show ?thesis by simp
next
  case (Tap now)
  then show ?thesis by (simp add: jumpHandler_def d_restart_def)
next
  case (Resize w h)
  then show ?thesis by (simp add: resize_def Let_def)
qed

lemma d_run_highScore: "d_highScore g \<le> d_highScore (d_run es g)"
proof (induction es arbitrary: g)
  case Nil
  then show ?case by simp
next
  case (Cons e es)
  have "d_highScore g \<le> d_highScore (d_handle e g)" by (rule d_handle_highScore)
  also have "\<dots> \<le> d_highScore (d_run es (d_handle e g))" by (rule Cons.IH)
  finally show ?case by simp
qed

text \<open>The run \<open>c4_events\<close> leads from the start of the game to \<open>c4_before\<close>.\<close>

lemma c4_reachable: "d_run c4_events c4_start = c4_before"
  by (simp add: c4_events_def c4_start_def c4_before_def d_defs)

text \<open>
  Claim C4 fails in the dodge game. In \<open>c4_before\<close> the score and the high score
  are 0 and nothing is stored. The next frame ends the run: the bird hits the first
  pipe, which saves the high score while the score is still 0; then the loop over the
  pipes goes on and the second pipe, already past the bird, raises the score to 1. The
  run ends with score 1, high score 0 and an empty store, where the larger of the old
  high score and the final score is 1.
\<close>

theorem high_score_missed:
  "d_handle (Frame 4600) c4_before = c4_after
   \<and> \<not> d_gameOver c4_before
   \<and> d_gameOver c4_after
   \<and> d_score c4_after = 1
   \<and> d_highScore c4_after = 0
   \<and> getItem (d_localStorage c4_after) (d_localStorageKey c4_after) = None
   \<and> max (d_highScore c4_before) (d_score c4_after) = 1"
  by (simp add: c4_before_def c4_after_def d_defs)

end
